theory Spec2Isabelle
  imports Complex_Main "HOL-Library.Sublist"
begin

section \<open>Go strings\<close>

text \<open>
  A Go \<^verbatim>\<open>string\<close> is a sequence of bytes, and so is a HOL \<^typ>\<open>string\<close>: a
  \<^typ>\<open>char\<close> is one byte. The functions of package \<^verbatim>\<open>strings\<close> that the
  parser calls are modelled on bytes, as Go defines them.
\<close>

definition nl :: char where
  "nl = CHR 0x0A"

text \<open>
  \<^verbatim>\<open>strings.TrimSpace\<close> removes every leading and trailing rune for which
  \<^verbatim>\<open>unicode.IsSpace\<close> holds. These are the UTF-8 encodings of those runes: the six
  ASCII ones, U+0085, U+00A0, U+1680, U+2000 to U+200A, U+2028, U+2029, U+202F, U+205F
  and U+3000. A rune is decoded at the start (or the end) of the string exactly when its
  encoding is a prefix (or a suffix) of the bytes.
\<close>

definition space_runes :: "string list" where
  "space_runes =
     [[CHR 0x09], [CHR 0x0A], [CHR 0x0B], [CHR 0x0C], [CHR 0x0D], [CHR 0x20],
      [CHR 0xC2, CHR 0x85], [CHR 0xC2, CHR 0xA0],
      [CHR 0xE1, CHR 0x9A, CHR 0x80],
      [CHR 0xE2, CHR 0x80, CHR 0x80], [CHR 0xE2, CHR 0x80, CHR 0x81],
      [CHR 0xE2, CHR 0x80, CHR 0x82], [CHR 0xE2, CHR 0x80, CHR 0x83],
      [CHR 0xE2, CHR 0x80, CHR 0x84], [CHR 0xE2, CHR 0x80, CHR 0x85],
      [CHR 0xE2, CHR 0x80, CHR 0x86], [CHR 0xE2, CHR 0x80, CHR 0x87],
      [CHR 0xE2, CHR 0x80, CHR 0x88], [CHR 0xE2, CHR 0x80, CHR 0x89],
      [CHR 0xE2, CHR 0x80, CHR 0x8A],
      [CHR 0xE2, CHR 0x80, CHR 0xA8], [CHR 0xE2, CHR 0x80, CHR 0xA9],
      [CHR 0xE2, CHR 0x80, CHR 0xAF], [CHR 0xE2, CHR 0x81, CHR 0x9F],
      [CHR 0xE3, CHR 0x80, CHR 0x80]]"

definition leading_space :: "string \<Rightarrow> nat" where
  "leading_space s =
     (case find (\<lambda>p. prefix p s) space_runes of None \<Rightarrow> 0 | Some p \<Rightarrow> length p)"

definition trailing_space :: "string \<Rightarrow> nat" where
  "trailing_space s =
     (case find (\<lambda>p. suffix p s) space_runes of None \<Rightarrow> 0 | Some p \<Rightarrow> length p)"

lemma leading_space_le: "leading_space s \<le> length s"
  by (auto simp: leading_space_def find_Some_iff prefix_length_le split: option.splits)

lemma trailing_space_le: "trailing_space s \<le> length s"
  by (auto simp: trailing_space_def find_Some_iff suffix_length_le split: option.splits)

function TrimLeftSpace :: "string \<Rightarrow> string" where
  "TrimLeftSpace s =
     (if leading_space s = 0 then s else TrimLeftSpace (drop (leading_space s) s))"
  by pat_completeness auto
termination
proof (relation "measure length")
  show "wf (measure length)" by simp
next
  fix s :: string
  assume "leading_space s \<noteq> 0"
  with leading_space_le [of s] show "(drop (leading_space s) s, s) \<in> measure length"
    by auto
qed

function TrimRightSpace :: "string \<Rightarrow> string" where
  "TrimRightSpace s =
     (if trailing_space s = 0 then s
      else TrimRightSpace (take (length s - trailing_space s) s))"
  by pat_completeness auto
termination
proof (relation "measure length")
  show "wf (measure length)" by simp
next
  fix s :: string
  assume "trailing_space s \<noteq> 0"
  with trailing_space_le [of s]
  show "(take (length s - trailing_space s) s, s) \<in> measure length"
    by auto
qed

declare TrimLeftSpace.simps [simp del]
declare TrimRightSpace.simps [simp del]

definition TrimSpace :: "string \<Rightarrow> string" where
  "TrimSpace s = TrimRightSpace (TrimLeftSpace s)"

definition HasPrefix :: "string \<Rightarrow> string \<Rightarrow> bool" where
  "HasPrefix s p = prefix p s"

definition HasSuffix :: "string \<Rightarrow> string \<Rightarrow> bool" where
  "HasSuffix s p = suffix p s"

definition Contains :: "string \<Rightarrow> string \<Rightarrow> bool" where
  "Contains s substr = sublist substr s"

definition TrimPrefix :: "string \<Rightarrow> string \<Rightarrow> string" where
  "TrimPrefix s p = (if HasPrefix s p then drop (length p) s else s)"

definition TrimSuffix :: "string \<Rightarrow> string \<Rightarrow> string" where
  "TrimSuffix s p = (if HasSuffix s p then take (length s - length p) s else s)"

text \<open>\<^verbatim>\<open>strings.Split(s, "\n")\<close>: one more piece than there are newlines.\<close>

fun Split_nl :: "string \<Rightarrow> string list" where
  "Split_nl [] = [[]]"
| "Split_nl (c # cs) =
     (if c = nl then [] # Split_nl cs
      else (case Split_nl cs of [] \<Rightarrow> [[c]] | l # ls \<Rightarrow> (c # l) # ls))"

text \<open>\<^verbatim>\<open>strings.Join(elems, "\n")\<close>.\<close>

fun Join_nl :: "string list \<Rightarrow> string" where
  "Join_nl [] = []"
| "Join_nl [l] = l"
| "Join_nl (l # ls) = l @ nl # Join_nl ls"

text \<open>\<^verbatim>\<open>strings.Fields\<close>: the maximal runs of bytes between space runes.\<close>

function Fields_from :: "string \<Rightarrow> string \<Rightarrow> string list" where
  "Fields_from cur s =
     (if s = [] then (if cur = [] then [] else [cur])
      else if leading_space s = 0 then Fields_from (cur @ [hd s]) (tl s)
      else (if cur = [] then [] else [cur]) @ Fields_from [] (drop (leading_space s) s))"
  by pat_completeness auto
termination
proof (relation "measure (\<lambda>(cur, s). length s)")
  show "wf (measure (\<lambda>(cur, s). length s))" by simp
next
  fix cur s :: string
  assume "s \<noteq> []"
  then show "((cur @ [hd s], tl s), cur, s) \<in> measure (\<lambda>(cur, s). length s)"
    by simp
next
  fix cur s :: string
  assume "s \<noteq> []" "leading_space s \<noteq> 0"
  then show "(([], drop (leading_space s) s), cur, s) \<in> measure (\<lambda>(cur, s). length s)"
    by simp
qed

declare Fields_from.simps [simp del]

definition Fields :: "string \<Rightarrow> string list" where
  "Fields s = Fields_from [] s"

section \<open>The response parser\<close>

text \<open>
  \<^verbatim>\<open>stripMarkdownCodeBlocks\<close> applies two regular expressions with
  \<^verbatim>\<open>ReplaceAllString(s, "")\<close>. The first, \<^verbatim>\<open>(?m)^```[a-z]*\n\<close>, matches at the
  start of a line: three backquotes, the longest run of lower-case letters, a newline.
  The run cannot be shortened, since a letter is not a newline. Matches are found from
  left to right without overlap; a match ends after its newline, where a line starts.
\<close>

definition backquote :: char where
  "backquote = CHR 0x60"

definition is_lower :: "char \<Rightarrow> bool" where
  "is_lower c = ((97::nat) \<le> of_char c \<and> (of_char c :: nat) \<le> 122)"

definition fence_open_match :: "string \<Rightarrow> nat option" where
  "fence_open_match s =
     (if prefix [backquote, backquote, backquote] s then
        (let n = length (takeWhile is_lower (drop 3 s)) in
         if prefix [nl] (drop (3 + n) s) then Some (3 + n + 1) else None)
      else None)"

lemma fence_open_match_pos: "fence_open_match s = Some n \<Longrightarrow> 0 < n"
  by (auto simp: fence_open_match_def Let_def split: if_splits)

function replace_fence_open :: "bool \<Rightarrow> string \<Rightarrow> string" where
  "replace_fence_open bol s =
     (case s of
        [] \<Rightarrow> []
      | c # cs \<Rightarrow>
          (case (if bol then fence_open_match s else None) of
             Some n \<Rightarrow> replace_fence_open True (drop n s)
           | None \<Rightarrow> c # replace_fence_open (c = nl) cs))"
  by pat_completeness auto
termination
proof (relation "measure (\<lambda>(bol, s). length s)")
  show "wf (measure (\<lambda>(bol, s). length s))" by simp
next
  fix bol :: bool and s :: string and c cs n
  assume "s = c # cs" "(if bol then fence_open_match s else None) = Some n"
  then have "0 < n"
    by (auto dest: fence_open_match_pos split: if_splits)
  with \<open>s = c # cs\<close> show "((True, drop n s), bol, s) \<in> measure (\<lambda>(bol, s). length s)"
    by simp
next
  fix bol :: bool and s :: string and c cs
  assume "s = c # cs"
  then show "((c = nl, cs), bol, s) \<in> measure (\<lambda>(bol, s). length s)"
    by simp
qed

declare replace_fence_open.simps [simp del]

text \<open>
  The second, \<^verbatim>\<open>(?m)\n```$\<close>, matches a newline and three backquotes that end a
  line: the text ends there or a newline follows.
\<close>

definition fence_close_match :: "string \<Rightarrow> bool" where
  "fence_close_match s =
     (prefix [nl, backquote, backquote, backquote] s \<and>
      (length s = 4 \<or> prefix [nl] (drop 4 s)))"

function replace_fence_close :: "string \<Rightarrow> string" where
  "replace_fence_close s =
     (case s of
        [] \<Rightarrow> []
      | c # cs \<Rightarrow>
          (if fence_close_match s then replace_fence_close (drop 4 s)
           else c # replace_fence_close cs))"
  by pat_completeness auto
termination
  by (relation "measure length") auto

declare replace_fence_close.simps [simp del]

definition stripMarkdownCodeBlocks :: "string \<Rightarrow> string" where
  "stripMarkdownCodeBlocks s =
     TrimSpace
       (TrimSuffix
          (TrimPrefix (replace_fence_close (replace_fence_open True s)) [backquote])
          [backquote])"

datatype parse_error =
    NotFoundInManPage
  | NotStartWithCommand string
  | MultiLineNoCommand
  | EmptyResponse
  | NoCommandFound string

record ParsedResponse =
  Command :: string
  Explanation :: string
  Valid :: bool
  Error :: "parse_error option"

text \<open>The zero value \<^verbatim>\<open>ParsedResponse{}\<close>, and the two shapes the parser builds.\<close>

definition ParsedResponse_zero :: ParsedResponse where
  "ParsedResponse_zero = \<lparr>Command = [], Explanation = [], Valid = False, Error = None\<rparr>"

definition invalid :: "parse_error \<Rightarrow> ParsedResponse" where
  "invalid e = \<lparr>Command = [], Explanation = [], Valid = False, Error = Some e\<rparr>"

definition valid :: "string \<Rightarrow> string \<Rightarrow> ParsedResponse" where
  "valid c x = \<lparr>Command = c, Explanation = x, Valid = True, Error = None\<rparr>"

record Parser =
  commandName :: string
  explainMode :: bool

definition refusal :: string where
  "refusal = ''cannot find this information in the man page''"

text \<open>
  The loop of \<^verbatim>\<open>parseDefaultMode\<close> over the lines: the first one that, trimmed, is
  not empty and starts with the command name.
\<close>

fun first_command_line :: "string \<Rightarrow> string list \<Rightarrow> string option" where
  "first_command_line cmd [] = None"
| "first_command_line cmd (l # ls) =
     (let line = TrimSpace l in
      if line \<noteq> [] \<and> HasPrefix line cmd then Some line
      else first_command_line cmd ls)"

definition parseDefaultMode :: "Parser \<Rightarrow> string \<Rightarrow> ParsedResponse" where
  "parseDefaultMode p response0 =
     (if Contains response0 refusal then invalid NotFoundInManPage
      else
        (let response = TrimSpace (stripMarkdownCodeBlocks response0) in
         if \<not> HasPrefix response (commandName p)
         then invalid (NotStartWithCommand (commandName p))
         else
           (let lines = Split_nl response in
            if length lines > 1 then
              (case first_command_line (commandName p) lines of
                 Some line \<Rightarrow> valid line []
               | None \<Rightarrow> invalid MultiLineNoCommand)
            else valid response [])))"

text \<open>
  The first loop of \<^verbatim>\<open>parseExplainMode\<close>: the command and the index after its
  line, \<^verbatim>\<open>("", 0)\<close> when the loop ends without a \<^verbatim>\<open>break\<close>.
\<close>

fun find_command :: "string \<Rightarrow> nat \<Rightarrow> string list \<Rightarrow> string \<times> nat" where
  "find_command cmd i [] = ([], 0)"
| "find_command cmd i (l # ls) =
     (let line = TrimSpace l in
      if line = [] then find_command cmd (i + 1) ls
      else
        (let line' = TrimSpace (stripMarkdownCodeBlocks line) in
         if HasPrefix line' cmd then (line', i + 1)
         else find_command cmd (i + 1) ls))"

definition parseExplainMode :: "Parser \<Rightarrow> string \<Rightarrow> ParsedResponse" where
  "parseExplainMode p response =
     (if Contains response refusal then invalid NotFoundInManPage
      else
        (let lines = Split_nl response in
         if length lines = 0 then invalid EmptyResponse
         else
           (case find_command (commandName p) 0 lines of
              (command, explanationStart) \<Rightarrow>
                if command = [] then invalid (NoCommandFound (commandName p))
                else
                  valid command
                    (Join_nl (filter (\<lambda>l. l \<noteq> [])
                       (map TrimSpace (drop explanationStart lines)))))))"

definition Parse :: "Parser \<Rightarrow> string \<Rightarrow> ParsedResponse" where
  "Parse p response =
     (if explainMode p then parseExplainMode p (TrimSpace response)
      else parseDefaultMode p (TrimSpace response))"

datatype validate_error = EmptyCommand | WrongFirstField string string | HasNewline | TooLong nat

definition ValidateCommand :: "Parser \<Rightarrow> string \<Rightarrow> validate_error option" where
  "ValidateCommand p command =
     (let parts = Fields command in
      if length parts = 0 then Some EmptyCommand
      else if hd parts \<noteq> commandName p then Some (WrongFirstField (commandName p) (hd parts))
      else if Contains command [nl] then Some HasNewline
      else if length command > 1000 then Some (TooLong (length command))
      else None)"

section \<open>Requests, responses and providers\<close>

text \<open>
  The structs of package \<^verbatim>\<open>llm\<close>. A field that two structs share keeps its name in
  the first record and takes a suffix in the others. Go's \<^verbatim>\<open>int\<close> values are
  only copied here, so they are integers; the two places that compute with 64-bit
  integers wrap them with \<open>int64\<close>.
\<close>

record QueryRequest =
  Model_req :: string
  SystemPrompt :: string
  UserPrompt :: string
  MaxTokens :: int
  Temperature :: real
  ContextWindow :: int
  StopSequences :: "string list"

record QueryResponse =
  Content :: string
  TokensInput :: int
  TokensOutput :: int
  Model :: string
  Provider :: string
  Cached :: bool

record StreamChunk =
  Content_chunk :: string
  IsComplete :: bool
  TokensInput_chunk :: int
  TokensOutput_chunk :: int

datatype error =
    LibraryError string
  | OllamaAPIError error
  | StreamError error
  | LLMQueryFailed "error option"
  | LLMRetryFailed error
  | UnableToGenerate "parse_error option"
  | CachedResponseInvalid "parse_error option"
  | MkdirFailed error
  | MarshalFailed error
  | WriteFailed error

definition int64 :: "int \<Rightarrow> int" where
  "int64 x = (x + 2 ^ 63) mod 2 ^ 64 - 2 ^ 63"

subsection \<open>The Ollama adapter\<close>

text \<open>
  \<^verbatim>\<open>api.Client.Chat\<close> calls the response function once per response of the daemon,
  in order, and then returns its error. The client is the function that gives, for a
  request, the responses delivered and the error returned.
\<close>

record ChatRequest =
  Model_chat :: string
  Messages :: "(string \<times> string) list"
  temperature :: real
  num_predict :: int
  num_ctx :: int

record ChatResponse =
  Message_Content :: string
  Done :: bool
  PromptEvalCount :: int
  EvalCount :: int

type_synonym ollama_client = "ChatRequest \<Rightarrow> ChatResponse list \<times> error option"

definition ollama_chatReq :: "QueryRequest \<Rightarrow> ChatRequest" where
  "ollama_chatReq req =
     (let contextWindow = (if ContextWindow req = 0 then 8192 else ContextWindow req) in
      \<lparr>Model_chat = Model_req req,
       Messages = [(''system'', SystemPrompt req), (''user'', UserPrompt req)],
       temperature = Temperature req,
       num_predict = MaxTokens req,
       num_ctx = contextWindow\<rparr>)"

text \<open>The response function of \<^verbatim>\<open>Query\<close>, on the three variables it closes over.\<close>

fun Query_respFunc :: "string \<times> int \<times> int \<Rightarrow> ChatResponse \<Rightarrow> string \<times> int \<times> int" where
  "Query_respFunc (fullContent, promptTokens, completionTokens) resp =
     (if Done resp
      then (fullContent @ Message_Content resp, PromptEvalCount resp, EvalCount resp)
      else (fullContent @ Message_Content resp, promptTokens, completionTokens))"

definition OllamaProvider_Query :: "ollama_client \<Rightarrow> QueryRequest \<Rightarrow> error + QueryResponse" where
  "OllamaProvider_Query client req =
     (case client (ollama_chatReq req) of
        (resps, Some err) \<Rightarrow> Inl (OllamaAPIError err)
      | (resps, None) \<Rightarrow>
          (case foldl Query_respFunc ([], 0, 0) resps of
             (fullContent, promptTokens, completionTokens) \<Rightarrow>
               Inr \<lparr>Content = fullContent, TokensInput = promptTokens,
                    TokensOutput = completionTokens, Model = Model_req req,
                    Provider = ''ollama'', Cached = False\<rparr>))"

text \<open>
  The response function of \<^verbatim>\<open>StreamQuery\<close>: the chunks it sends for one response.
\<close>

definition StreamQuery_respFunc :: "ChatResponse \<Rightarrow> StreamChunk list" where
  "StreamQuery_respFunc resp =
     (if Done resp then
        [\<lparr>Content_chunk = [], IsComplete = True,
          TokensInput_chunk = PromptEvalCount resp, TokensOutput_chunk = EvalCount resp\<rparr>]
      else if Message_Content resp \<noteq> [] then
        [\<lparr>Content_chunk = Message_Content resp, IsComplete = False,
          TokensInput_chunk = 0, TokensOutput_chunk = 0\<rparr>]
      else [])"

text \<open>
  What the consumer of the two channels receives, one event per turn of its
  \<^verbatim>\<open>select\<close>: a chunk, the closed chunk channel, or a receive from the error channel
  (\<open>None\<close> is the nil error a closed error channel yields).
\<close>

datatype stream_event = ChunkRecv StreamChunk | ChunkClosed | ErrRecv "error option"

text \<open>
  The goroutine of \<^verbatim>\<open>StreamQuery\<close> sends its chunks on the unbuffered chunk channel,
  sends the error (if any) on the error channel and closes both. While chunks are being
  sent the error channel is empty and open, so the consumer receives the chunks in
  order. After the last chunk both channels are ready, and \<^verbatim>\<open>select\<close> picks either:
  \<open>pickErr\<close> is that choice.
\<close>

definition OllamaProvider_StreamQuery ::
  "ollama_client \<Rightarrow> bool \<Rightarrow> QueryRequest \<Rightarrow> stream_event list" where
  "OllamaProvider_StreamQuery client pickErr req =
     (case client (ollama_chatReq req) of
        (resps, err) \<Rightarrow>
          map ChunkRecv (concat (map StreamQuery_respFunc resps)) @
          [if pickErr then ErrRecv (map_option StreamError err) else ChunkClosed])"

subsection \<open>The provider interface\<close>

text \<open>
  A provider is its methods, over a state \<open>'p\<close> of the backend that a call may change:
  a backend need not answer the same request twice with the same text.
\<close>

record 'p Provider_iface =
  Query :: "'p \<Rightarrow> QueryRequest \<Rightarrow> (error + QueryResponse) \<times> 'p"
  StreamQuery :: "'p \<Rightarrow> QueryRequest \<Rightarrow> stream_event list \<times> 'p"
  Name :: string

definition OllamaProvider :: "bool \<Rightarrow> (ollama_client) Provider_iface" where
  "OllamaProvider pickErr =
     \<lparr>Query = (\<lambda>client req. (OllamaProvider_Query client req, client)),
      StreamQuery = (\<lambda>client req. (OllamaProvider_StreamQuery client pickErr req, client)),
      Name = ''ollama''\<rparr>"

section \<open>The query executor\<close>

text \<open>
  The loop \<^verbatim>\<open>streamLoop\<close> of \<^verbatim>\<open>executeStreamingQuery\<close>, on the content built so far.
  With no event left the \<^verbatim>\<open>select\<close> blocks for ever: the result is \<open>None\<close>. The
  spinner only writes to the terminal and is left out.
\<close>

fun streamLoop :: "string \<Rightarrow> stream_event list \<Rightarrow> (error + string \<times> int \<times> int) option" where
  "streamLoop content [] = None"
| "streamLoop content (ChunkClosed # evs) = Some (Inr (content, 0, 0))"
| "streamLoop content (ChunkRecv chunk # evs) =
     (if IsComplete chunk
      then Some (Inr (content, TokensInput_chunk chunk, TokensOutput_chunk chunk))
      else streamLoop (content @ Content_chunk chunk) evs)"
| "streamLoop content (ErrRecv err # evs) = Some (Inl (LLMQueryFailed err))"

definition executeStreamingQuery ::
  "'p Provider_iface \<Rightarrow> QueryRequest \<Rightarrow> 'p \<Rightarrow> ((error + QueryResponse) \<times> 'p) option" where
  "executeStreamingQuery provider req ps =
     (case StreamQuery provider ps req of
        (events, ps') \<Rightarrow>
          (case streamLoop [] events of
             None \<Rightarrow> None
           | Some (Inl err) \<Rightarrow> Some (Inl err, ps')
           | Some (Inr (content, tokenInput, tokenOutput)) \<Rightarrow>
               Some (Inr \<lparr>Content = content, TokensInput = tokenInput,
                          TokensOutput = tokenOutput, Model = Model_req req,
                          Provider = Name provider, Cached = False\<rparr>, ps')))"

definition ExecuteQuery ::
  "'p Provider_iface \<Rightarrow> QueryRequest \<Rightarrow> bool \<Rightarrow> 'p \<Rightarrow> ((error + QueryResponse) \<times> 'p) option" where
  "ExecuteQuery provider req ShowProgress ps =
     (if ShowProgress then executeStreamingQuery provider req ps
      else Some (Query provider ps req))"

section \<open>The cache\<close>

text \<open>
  What the cache takes from outside the repository: \<^verbatim>\<open>sha256.Sum256\<close> and the JSON
  encoding of an entry (\<^verbatim>\<open>json.MarshalIndent\<close>, \<^verbatim>\<open>json.Unmarshal\<close>). They are
  parameters; nothing is assumed of them but what a theorem says.
\<close>

record Entry =
  Key :: string
  Command_entry :: string
  Question :: string
  Model_entry :: string
  Response :: "QueryResponse option"
  CreatedAt :: int
  AccessedAt :: int
  AccessCount :: int

record stdlib =
  sha256_Sum256 :: "string \<Rightarrow> string"
  json_MarshalIndent :: "Entry \<Rightarrow> error + string"
  json_Unmarshal :: "string \<Rightarrow> error + Entry"

text \<open>\<^verbatim>\<open>fmt.Sprintf("%x", hash)\<close>: two lower-case hexadecimal digits for each byte.\<close>

definition hex_digit :: "nat \<Rightarrow> char" where
  "hex_digit n = ''0123456789abcdef'' ! n"

definition hex_byte :: "char \<Rightarrow> string" where
  "hex_byte c = [hex_digit (of_char c div 16), hex_digit (of_char c mod 16)]"

definition hex :: "string \<Rightarrow> string" where
  "hex bytes = concat (map hex_byte bytes)"

text \<open>Reading the digits back, used to prove that \<open>hex\<close> loses nothing.\<close>

definition unhex_digit :: "char \<Rightarrow> nat" where
  "unhex_digit c = (if of_char c < (97::nat) then of_char c - 48 else of_char c - 87)"

definition unhex_byte :: "string \<Rightarrow> nat" where
  "unhex_byte s = unhex_digit (s ! 0) * 16 + unhex_digit (s ! 1)"

definition key_data :: "string \<Rightarrow> string \<Rightarrow> string \<Rightarrow> string" where
  "key_data command question model = command @ '':'' @ question @ '':'' @ model"

definition GenerateKey :: "stdlib \<Rightarrow> string \<Rightarrow> string \<Rightarrow> string \<Rightarrow> string" where
  "GenerateKey L command question model =
     hex (sha256_Sum256 L (key_data command question model))"

text \<open>
  The cache directory: its files by path, and what the operating system answers to
  \<^verbatim>\<open>os.MkdirAll\<close> and \<^verbatim>\<open>os.WriteFile\<close>. \<^verbatim>\<open>os.ReadFile\<close> fails when there is no
  file at the path; \<^verbatim>\<open>os.Remove\<close> removes the file (the source drops its result).
\<close>

record filesys =
  files :: "string \<rightharpoonup> string"
  MkdirAll_err :: "error option"
  WriteFile_err :: "error option"

definition ReadFile :: "filesys \<Rightarrow> string \<Rightarrow> error + string" where
  "ReadFile fs path =
     (case files fs path of
        None \<Rightarrow> Inl (LibraryError ''no such file or directory'')
      | Some data \<Rightarrow> Inr data)"

definition Remove :: "string \<Rightarrow> filesys \<Rightarrow> filesys" where
  "Remove path fs = fs\<lparr>files := (files fs)(path := None)\<rparr>"

text \<open>
  \<^verbatim>\<open>filepath.Join\<close> of two elements, on a system whose separator is the slash (the
  README names macOS and Linux): the elements that are not empty are joined with a slash
  and the result is cleaned. \<^verbatim>\<open>filepath.Clean\<close> drops empty elements and \<^verbatim>\<open>.\<close>
  elements, lets a \<^verbatim>\<open>..\<close> element remove the element before it (at the root it is
  dropped, at the start of a relative path it stays), and writes \<^verbatim>\<open>.\<close> for an empty
  result.
\<close>

definition Separator :: char where
  "Separator = CHR ''/''"

fun Split_sep :: "string \<Rightarrow> string list" where
  "Split_sep [] = [[]]"
| "Split_sep (c # cs) =
     (if c = Separator then [] # Split_sep cs
      else (case Split_sep cs of [] \<Rightarrow> [[c]] | l # ls \<Rightarrow> (c # l) # ls))"

fun Join_sep :: "string list \<Rightarrow> string" where
  "Join_sep [] = []"
| "Join_sep [l] = l"
| "Join_sep (l # ls) = l @ Separator # Join_sep ls"

text \<open>The elements kept so far are in \<open>out\<close>, the last one first.\<close>

fun clean_elems :: "bool \<Rightarrow> string list \<Rightarrow> string list \<Rightarrow> string list" where
  "clean_elems rooted out [] = rev out"
| "clean_elems rooted out (e # es) =
     (if e = [] \<or> e = ''.'' then clean_elems rooted out es
      else if e = ''..'' then
        (case out of
           [] \<Rightarrow> if rooted then clean_elems rooted out es
                 else clean_elems rooted (e # out) es
         | last_elem # out' \<Rightarrow>
             if last_elem = ''..'' then clean_elems rooted (e # out) es
             else clean_elems rooted out' es)
      else clean_elems rooted (e # out) es)"

definition Clean :: "string \<Rightarrow> string" where
  "Clean path =
     (if path = [] then ''.''
      else
        (let rooted = (hd path = Separator);
             body = Join_sep (clean_elems rooted [] (Split_sep path)) in
         if rooted then Separator # body
         else if body = [] then ''.'' else body))"

definition filepath_Join :: "string \<Rightarrow> string \<Rightarrow> string" where
  "filepath_Join dir name =
     (if dir \<noteq> [] then Clean (dir @ [Separator] @ name)
      else if name \<noteq> [] then Clean name
      else [])"

record Cache =
  cacheDir :: string
  maxAgeDays :: int

text \<open>\<^verbatim>\<open>cache.New\<close>; \<open>GetCacheDir\<close> is what \<^verbatim>\<open>config.GetCacheDir()\<close> returns.\<close>

definition cache_New :: "string \<Rightarrow> int \<Rightarrow> Cache" where
  "cache_New GetCacheDir days = \<lparr>cacheDir = GetCacheDir, maxAgeDays = days\<rparr>"

text \<open>
  Times are nanoseconds since the epoch. The duration
  \<^verbatim>\<open>time.Duration(c.maxAgeDays) * 24 * time.Hour\<close> is a 64-bit product and wraps.
\<close>

definition Hour :: int where
  "Hour = 3600000000000"

definition isExpired :: "Cache \<Rightarrow> int \<Rightarrow> int \<Rightarrow> bool" where
  "isExpired c now createdAt =
     (if maxAgeDays c \<le> 0 then False
      else
        (let expiryTime = createdAt + int64 (maxAgeDays c * 24 * Hour) in
         now > expiryTime))"

definition saveEntry :: "stdlib \<Rightarrow> Cache \<Rightarrow> Entry \<Rightarrow> filesys \<Rightarrow> error option \<times> filesys" where
  "saveEntry L c entry fs =
     (case MkdirAll_err fs of
        Some err \<Rightarrow> (Some (MkdirFailed err), fs)
      | None \<Rightarrow>
          (let entryPath = filepath_Join (cacheDir c) (Key entry @ ''.json'') in
           case json_MarshalIndent L entry of
             Inl err \<Rightarrow> (Some (MarshalFailed err), fs)
           | Inr data \<Rightarrow>
               (case WriteFile_err fs of
                  Some err \<Rightarrow> (Some (WriteFailed err), fs)
                | None \<Rightarrow> (None, fs\<lparr>files := (files fs)(entryPath \<mapsto> data)\<rparr>))))"

text \<open>
  \<^verbatim>\<open>Get\<close> returns either \<^verbatim>\<open>(nil, false)\<close>, here \<open>None\<close>, or a response and
  \<^verbatim>\<open>true\<close>, here \<open>Some\<close> of the response; and the directory as it leaves it.
  \<open>now\<close> is the clock during the call.
\<close>

definition Get ::
  "stdlib \<Rightarrow> Cache \<Rightarrow> int \<Rightarrow> string \<Rightarrow> string \<Rightarrow> string \<Rightarrow> filesys
     \<Rightarrow> QueryResponse option \<times> filesys" where
  "Get L c now command question model fs =
     (let key = GenerateKey L command question model;
          entryPath = filepath_Join (cacheDir c) (key @ ''.json'') in
      case ReadFile fs entryPath of
        Inl err \<Rightarrow> (None, fs)
      | Inr data \<Rightarrow>
          (case json_Unmarshal L data of
             Inl err \<Rightarrow> (None, fs)
           | Inr entry \<Rightarrow>
               if isExpired c now (CreatedAt entry)
               then (None, Remove entryPath fs)
               else
                 (case Response entry of
                    None \<Rightarrow> (None, Remove entryPath fs)
                  | Some response \<Rightarrow>
                      (let entry' = entry\<lparr>AccessedAt := now,
                                           AccessCount := int64 (AccessCount entry + 1)\<rparr>;
                           fs' = snd (saveEntry L c entry' fs)
                       in (Some (response\<lparr>Cached := True\<rparr>), fs')))))"

text \<open>The entry \<^verbatim>\<open>Set\<close> builds, and \<^verbatim>\<open>Set\<close>.\<close>

definition Set_entry ::
  "stdlib \<Rightarrow> int \<Rightarrow> string \<Rightarrow> string \<Rightarrow> string \<Rightarrow> QueryResponse \<Rightarrow> Entry" where
  "Set_entry L now command question model response =
     (let key = GenerateKey L command question model in
      \<lparr>Key = key, Command_entry = command, Question = question,
       Model_entry = model, Response = Some response,
       CreatedAt = now, AccessedAt = now, AccessCount = 1\<rparr>)"

definition Set_cache ::
  "stdlib \<Rightarrow> Cache \<Rightarrow> int \<Rightarrow> string \<Rightarrow> string \<Rightarrow> string \<Rightarrow> QueryResponse \<Rightarrow> filesys
     \<Rightarrow> error option \<times> filesys" where
  "Set_cache L c now command question model response fs =
     saveEntry L c (Set_entry L now command question model response) fs"

section \<open>Prompts\<close>

definition DefaultModeSystemPrompt :: string where
  \<open>DefaultModeSystemPrompt =
     ''You are a command-line expert helping users construct commands based ONLY on the provided man page.\<newline>'' @
     ''\<newline>'' @
     ''CRITICAL RULES:\<newline>'' @
     ''1. Base your answer EXCLUSIVELY on the man page content provided below\<newline>'' @
     ''2. Ignore ALL your training data knowledge about this command\<newline>'' @
     ''3. If the man page doesn't contain information to answer the question, respond with: "I cannot find this information in the man page"\<newline>'' @
     ''4. Output ONLY the command, nothing else\<newline>'' @
     ''5. Do not include explanations, descriptions, or any other text\<newline>'' @
     ''6. Do not use markdown code blocks or formatting\<newline>'' @
     ''7. The command must start with the command name from the man page\<newline>'' @
     ''8. Use placeholders like <PID>, <filename> for values the user needs to provide\<newline>'' @
     ''\<newline>'' @
     ''Example:\<newline>'' @
     ''User asks: "how do I list open files for a process"\<newline>'' @
     ''Man page contains: "-p <PID> selects files for a specific process"\<newline>'' @
     ''Your response: lsof -p <PID>\<newline>'' @
     ''\<newline>'' @
     ''Example of what NOT to do:\<newline>'' @
     ''User asks: "how do I use feature X"\<newline>'' @
     ''Man page does not mention feature X\<newline>'' @
     ''WRONG response: command --feature-x (this uses your training data)\<newline>'' @
     ''CORRECT response: I cannot find this information in the man page''\<close>

definition ExplainModeSystemPrompt :: string where
  \<open>ExplainModeSystemPrompt =
     ''You are a command-line expert helping users construct commands based ONLY on the provided man page.\<newline>'' @
     ''\<newline>'' @
     ''CRITICAL RULES:\<newline>'' @
     ''1. Base your answer EXCLUSIVELY on the man page content provided below\<newline>'' @
     ''2. Ignore ALL your training data knowledge about this command\<newline>'' @
     ''3. If the man page doesn't contain information to answer the question, respond with: "I cannot find this information in the man page"\<newline>'' @
     ''4. The command must start with the command name from the man page\<newline>'' @
     ''5. Use placeholders like <PID>, <filename> for values the user needs to provide\<newline>'' @
     ''\<newline>'' @
     ''Output Format (MUST follow exactly):\<newline>'' @
     ''Line 1: The command\<newline>'' @
     ''Line 2: (blank)\<newline>'' @
     ''Line 3+: Brief explanation (2-4 sentences) based ONLY on the man page\<newline>'' @
     ''\<newline>'' @
     ''Example:\<newline>'' @
     ''User asks: "how do I list open files for a process"\<newline>'' @
     ''Man page contains: "-p <PID> selects files for a specific process"\<newline>'' @
     ''Your response:\<newline>'' @
     ''lsof -p <PID>\<newline>'' @
     ''\<newline>'' @
     ''This command lists all open files for a specific process. The -p flag specifies the process ID to inspect.\<newline>'' @
     ''\<newline>'' @
     ''Example of what NOT to do:\<newline>'' @
     ''User asks: "how do I use feature X"\<newline>'' @
     ''Man page does not mention feature X\<newline>'' @
     ''WRONG: command --feature-x (explanation from your training data)\<newline>'' @
     ''CORRECT: I cannot find this information in the man page''\<close>

text \<open>
  \<^verbatim>\<open>StrictRetryPromptTemplate\<close> has one verb, \<^verbatim>\<open>%s\<close>, between quotes: the text
  before it and the text after it. \<^verbatim>\<open>fmt.Sprintf\<close> puts the string between them.
\<close>

definition quote :: char where
  "quote = CHR 0x27"

definition StrictRetryPromptTemplate :: "string \<times> string" where
  "StrictRetryPromptTemplate =
     (''Your previous response was not a valid command. Please respond with ONLY the command syntax, starting with '' @ [quote],
      [quote] @ ''. No explanations, no formatting, just the command.'')"

record Builder =
  command :: string
  manPage :: string
  question :: string
  explainMode_builder :: bool

definition NewBuilder :: "string \<Rightarrow> string \<Rightarrow> string \<Rightarrow> bool \<Rightarrow> Builder" where
  "NewBuilder cmd page q explain =
     \<lparr>command = cmd, manPage = page, question = q, explainMode_builder = explain\<rparr>"

definition Builder_SystemPrompt :: "Builder \<Rightarrow> string" where
  "Builder_SystemPrompt b =
     (if explainMode_builder b then ExplainModeSystemPrompt else DefaultModeSystemPrompt)"

definition Builder_UserPrompt :: "Builder \<Rightarrow> string" where
  "Builder_UserPrompt b =
     ''Man page for '' @ [quote] @ command b @ [quote] @ '':\<newline>\<newline>'' @ manPage b @
     ''\<newline>\<newline>User question: '' @ question b @ ''\<newline>\<newline>Provide the command:''"

definition StrictRetryPrompt :: "Builder \<Rightarrow> string" where
  "StrictRetryPrompt b =
     fst StrictRetryPromptTemplate @ command b @ snd StrictRetryPromptTemplate"

section \<open>The orchestration\<close>

text \<open>
  What one invocation fixes before the query: the flag variables of package
  \<^verbatim>\<open>cli\<close>, \<^verbatim>\<open>cfg.CacheDays\<close>, the result of \<^verbatim>\<open>config.GetCacheDir()\<close>,
  \<^verbatim>\<open>activeProfile.Model\<close> and \<^verbatim>\<open>providerConfig.ContextWindow\<close>.
\<close>

record invocation =
  noCache :: bool
  verbose :: bool
  debug :: bool
  quiet :: bool
  CacheDays :: int
  GetCacheDir :: string
  Model_profile :: string
  ContextWindow_provider :: int

text \<open>
  The state a query runs in: the cache directory, the backend behind the provider, and
  the calls made to the provider so far, in order.
\<close>

datatype call = QueryCall QueryRequest | StreamQueryCall QueryRequest

record 'p world =
  fsys :: filesys
  backend :: 'p
  calls :: "call list"

text \<open>
  Messages printed when \<^verbatim>\<open>verbose\<close> is set are left out. The result is \<open>None\<close> when
  the streaming loop never returns.
\<close>

text \<open>The request \<^verbatim>\<open>queryWithCache\<close> prepares.\<close>

definition query_request :: "invocation \<Rightarrow> Builder \<Rightarrow> QueryRequest" where
  "query_request ivc promptBuilder =
     \<lparr>Model_req = Model_profile ivc,
      SystemPrompt = Builder_SystemPrompt promptBuilder,
      UserPrompt = Builder_UserPrompt promptBuilder,
      MaxTokens = 2000,
      Temperature = 1 / 10,
      ContextWindow = ContextWindow_provider ivc,
      StopSequences = []\<rparr>"

definition queryWithCache ::
  "stdlib \<Rightarrow> invocation \<Rightarrow> 'p Provider_iface \<Rightarrow> Builder \<Rightarrow> string \<Rightarrow> string \<Rightarrow> int
     \<Rightarrow> 'p world \<Rightarrow> ((error + QueryResponse) \<times> 'p world) option" where
  "queryWithCache L ivc provider promptBuilder cmd q now w =
     (let cacheManager = cache_New (GetCacheDir ivc) (CacheDays ivc) in
      case (if \<not> noCache ivc
            then (case Get L cacheManager now cmd q (Model_profile ivc) (fsys w) of
                    (hit, fs') \<Rightarrow> (hit, w\<lparr>fsys := fs'\<rparr>))
            else (None, w)) of
        (Some cachedResp, w1) \<Rightarrow> Some (Inr cachedResp, w1)
      | (None, w1) \<Rightarrow>
          (let req = query_request ivc promptBuilder;
               showProgress = (\<not> quiet ivc \<and> \<not> verbose ivc \<and> \<not> debug ivc) in
           case ExecuteQuery provider req showProgress (backend w1) of
             None \<Rightarrow> None
           | Some (result, ps') \<Rightarrow>
               (let w2 = w1\<lparr>backend := ps',
                             calls := calls w1 @
                               [if showProgress then StreamQueryCall req else QueryCall req]\<rparr> in
                case result of
                  Inl err \<Rightarrow> Some (Inl err, w2)
                | Inr resp \<Rightarrow>
                    Some (Inr resp,
                      w2\<lparr>fsys := snd (Set_cache L cacheManager now cmd q
                                          (Model_profile ivc) resp (fsys w2))\<rparr>))))"

definition parser_New :: "string \<Rightarrow> bool \<Rightarrow> Parser" where
  "parser_New name explain = \<lparr>commandName = name, explainMode = explain\<rparr>"

text \<open>The request \<^verbatim>\<open>parseAndValidate\<close> builds for the retry.\<close>

definition retry_request :: "invocation \<Rightarrow> Builder \<Rightarrow> QueryRequest" where
  "retry_request ivc promptBuilder =
     \<lparr>Model_req = Model_profile ivc,
      SystemPrompt = Builder_SystemPrompt promptBuilder,
      UserPrompt = StrictRetryPrompt promptBuilder,
      MaxTokens = 2000,
      Temperature = 1 / 10,
      ContextWindow = 0,
      StopSequences = []\<rparr>"

definition parseAndValidate ::
  "stdlib \<Rightarrow> invocation \<Rightarrow> 'p Provider_iface \<Rightarrow> Builder \<Rightarrow> QueryResponse \<Rightarrow> string \<Rightarrow> bool
     \<Rightarrow> string \<Rightarrow> int \<Rightarrow> 'p world \<Rightarrow> (error + ParsedResponse) \<times> 'p world" where
  "parseAndValidate L ivc provider promptBuilder resp cmd explainFlag q now w =
     (let responseParser = parser_New cmd explainFlag;
          parsed = Parse responseParser (Content resp) in
      if \<not> Valid parsed \<and> \<not> Cached resp then
        (let req = retry_request ivc promptBuilder in
         case Query provider (backend w) req of
           (result, ps') \<Rightarrow>
             (let w1 = w\<lparr>backend := ps', calls := calls w @ [QueryCall req]\<rparr> in
              case result of
                Inl err \<Rightarrow> (Inl (LLMRetryFailed err), w1)
              | Inr retryResp \<Rightarrow>
                  (let parsed' = Parse responseParser (Content retryResp) in
                   if \<not> Valid parsed' then (Inl (UnableToGenerate (Error parsed')), w1)
                   else
                     (let cacheManager = cache_New (GetCacheDir ivc) (CacheDays ivc) in
                      (Inr parsed',
                       w1\<lparr>fsys := snd (Set_cache L cacheManager now cmd q
                                           (Model_profile ivc) retryResp (fsys w1))\<rparr>)))))
      else if \<not> Valid parsed \<and> Cached resp then
        (Inl (CachedResponseInvalid (Error parsed)), w)
      else (Inr parsed, w))"

text \<open>
  The part of \<^verbatim>\<open>run\<close> from the prompt builder to the parsed response: the man page
  is already fetched, the provider already made. \<open>now\<close> and \<open>now'\<close> are the clock
  during the two calls.
\<close>

definition run ::
  "stdlib \<Rightarrow> invocation \<Rightarrow> 'p Provider_iface \<Rightarrow> string \<Rightarrow> string \<Rightarrow> string \<Rightarrow> bool
     \<Rightarrow> int \<Rightarrow> int \<Rightarrow> 'p world
     \<Rightarrow> ((error + ParsedResponse \<times> QueryResponse) \<times> 'p world) option" where
  "run L ivc provider cmd page q explainFlag now now' w =
     (let promptBuilder = NewBuilder cmd page q explainFlag in
      case queryWithCache L ivc provider promptBuilder cmd q now w of
        None \<Rightarrow> None
      | Some (Inl err, w1) \<Rightarrow> Some (Inl err, w1)
      | Some (Inr resp, w1) \<Rightarrow>
          (case parseAndValidate L ivc provider promptBuilder resp cmd explainFlag q now' w1 of
             (Inl err, w2) \<Rightarrow> Some (Inl err, w2)
           | (Inr parsed, w2) \<Rightarrow> Some (Inr (parsed, resp), w2)))"

section \<open>Examples used below\<close>

text \<open>A response that is no \<^verbatim>\<open>ls\<close> command, as it comes from a provider and from the cache.\<close>

definition bad_response :: QueryResponse where
  "bad_response =
     \<lparr>Content = ''rm -rf /'', TokensInput = 12, TokensOutput = 3,
      Model = ''llama3'', Provider = ''ollama'', Cached = False\<rparr>"

text \<open>A provider stub that answers every request with that response.\<close>

definition stub_provider :: "unit Provider_iface" where
  "stub_provider =
     \<lparr>Query = (\<lambda>ps req. (Inr bad_response, ps)),
      StreamQuery = (\<lambda>ps req.
        ([ChunkRecv \<lparr>Content_chunk = ''rm -rf /'', IsComplete = False,
                     TokensInput_chunk = 0, TokensOutput_chunk = 0\<rparr>,
          ChunkRecv \<lparr>Content_chunk = [], IsComplete = True,
                     TokensInput_chunk = 12, TokensOutput_chunk = 3\<rparr>], ps)),
      Name = ''ollama''\<rparr>"

text \<open>
  Two Ollama daemons: one ends its responses with a final response without text, the
  other puts the last piece of text in the final response.
\<close>

definition example_request :: QueryRequest where
  "example_request =
     \<lparr>Model_req = ''llama3'', SystemPrompt = DefaultModeSystemPrompt,
      UserPrompt = ''how do I sort by size'', MaxTokens = 2000, Temperature = 1 / 10,
      ContextWindow = 8192, StopSequences = []\<rparr>"

definition text_response :: "string \<Rightarrow> ChatResponse" where
  "text_response s =
     \<lparr>Message_Content = s, Done = False, PromptEvalCount = 0, EvalCount = 0\<rparr>"

definition final_response :: "string \<Rightarrow> ChatResponse" where
  "final_response s =
     \<lparr>Message_Content = s, Done = True, PromptEvalCount = 12, EvalCount = 3\<rparr>"

definition plain_client :: ollama_client where
  "plain_client = (\<lambda>chatReq.
     ([text_response ''ls'', text_response '' -lhS''] @ [final_response []], None))"

definition late_text_client :: ollama_client where
  "late_text_client = (\<lambda>chatReq.
     ([text_response ''ls'', final_response '' -lhS''], None))"

text \<open>
  A stand-in for the library in the examples: the digest function returns its input (it
  is no digest), and the JSON functions know one entry \<open>e\<close>, written as a fixed word
  and its key; every other text is rejected.
\<close>

definition example_lib :: "Entry \<Rightarrow> stdlib" where
  "example_lib e =
     \<lparr>sha256_Sum256 = (\<lambda>data. data),
      json_MarshalIndent = (\<lambda>entry. Inr (''entry '' @ Key entry)),
      json_Unmarshal = (\<lambda>data.
        if data = ''entry '' @ Key e then Inr e
        else Inl (LibraryError ''invalid character''))\<rparr>"

definition example_key :: string where
  "example_key = hex (key_data ''ls'' ''how do I sort by size'' ''llama3'')"

definition example_path :: string where
  "example_path = ''/cache/'' @ example_key @ ''.json''"

definition good_response :: QueryResponse where
  "good_response =
     \<lparr>Content = ''ls -lhS'', TokensInput = 12, TokensOutput = 3,
      Model = ''llama3'', Provider = ''ollama'', Cached = False\<rparr>"

definition entry_of :: "QueryResponse \<Rightarrow> Entry" where
  "entry_of r =
     \<lparr>Key = example_key, Command_entry = ''ls'', Question = ''how do I sort by size'',
      Model_entry = ''llama3'', Response = Some r,
      CreatedAt = 1000, AccessedAt = 1000, AccessCount = 1\<rparr>"

definition example_cache :: Cache where
  "example_cache = cache_New ''/cache'' 30"

definition empty_fs :: filesys where
  "empty_fs = \<lparr>files = Map.empty, MkdirAll_err = None, WriteFile_err = None\<rparr>"

definition garbage_fs :: filesys where
  "garbage_fs = empty_fs\<lparr>files := [example_path \<mapsto> ''not json'']\<rparr>"

definition example_invocation :: invocation where
  "example_invocation =
     \<lparr>noCache = False, verbose = True, debug = False, quiet = False,
      CacheDays = 30, GetCacheDir = ''/cache'', Model_profile = ''llama3'',
      ContextWindow_provider = 8192\<rparr>"

definition example_world :: "unit world" where
  "example_world = \<lparr>fsys = empty_fs, backend = (), calls = []\<rparr>"

subsection \<open>A stand-in for the JSON encoding\<close>

text \<open>
  A second library for the examples, whose two JSON functions write every field of an
  entry and read it back. The format is not JSON; what matters is what is read back. As
  \<^verbatim>\<open>encoding/json\<close> does, it writes a Go string as valid UTF-8: every byte at which
  \<^verbatim>\<open>utf8.DecodeRuneInString\<close> finds no valid encoding becomes U+FFFD, and a valid
  encoding is kept. \<open>rune_size\<close> is the width of the valid encoding at the head of the
  bytes, 0 when there is none.
\<close>

definition in_range :: "nat \<Rightarrow> nat \<Rightarrow> char \<Rightarrow> bool" where
  "in_range lo hi c = (lo \<le> of_char c \<and> (of_char c :: nat) \<le> hi)"

fun rune_size :: "string \<Rightarrow> nat" where
  "rune_size [] = 0"
| "rune_size (b0 # rest) =
     (let n = (of_char b0 :: nat) in
      if n < 0x80 then 1
      else if 0xC2 \<le> n \<and> n \<le> 0xDF then
        (case rest of
           b1 # _ \<Rightarrow> if in_range 0x80 0xBF b1 then 2 else 0
         | _ \<Rightarrow> 0)
      else if 0xE0 \<le> n \<and> n \<le> 0xEF then
        (case rest of
           b1 # b2 # _ \<Rightarrow>
             if in_range (if n = 0xE0 then 0xA0 else 0x80) (if n = 0xED then 0x9F else 0xBF) b1
                \<and> in_range 0x80 0xBF b2
             then 3 else 0
         | _ \<Rightarrow> 0)
      else if 0xF0 \<le> n \<and> n \<le> 0xF4 then
        (case rest of
           b1 # b2 # b3 # _ \<Rightarrow>
             if in_range (if n = 0xF0 then 0x90 else 0x80) (if n = 0xF4 then 0x8F else 0xBF) b1
                \<and> in_range 0x80 0xBF b2 \<and> in_range 0x80 0xBF b3
             then 4 else 0
         | _ \<Rightarrow> 0)
      else 0)"

definition replacement_rune :: string where
  "replacement_rune = [CHR 0xEF, CHR 0xBF, CHR 0xBD]"

function json_string :: "string \<Rightarrow> string" where
  "json_string s =
     (if s = [] then []
      else if rune_size s = 0 then replacement_rune @ json_string (tl s)
      else take (rune_size s) s @ json_string (drop (rune_size s) s))"
  by pat_completeness auto
termination
  by (relation "measure length") auto

declare json_string.simps [simp del]

definition enc_nat :: "nat \<Rightarrow> string" where
  "enc_nat n = replicate n (CHR ''1'') @ ''0''"

definition enc_int :: "int \<Rightarrow> string" where
  "enc_int i = (if i < 0 then ''-'' else ''+'') @ enc_nat (nat \<bar>i\<bar>)"

definition enc_string :: "string \<Rightarrow> string" where
  "enc_string s = enc_nat (length (json_string s)) @ json_string s"

definition enc_bool :: "bool \<Rightarrow> string" where
  "enc_bool b = (if b then ''t'' else ''f'')"

definition enc_response :: "QueryResponse \<Rightarrow> string" where
  "enc_response r =
     enc_string (Content r) @ enc_int (TokensInput r) @ enc_int (TokensOutput r) @
     enc_string (Model r) @ enc_string (Provider r) @ enc_bool (Cached r)"

definition enc_entry :: "Entry \<Rightarrow> string" where
  "enc_entry e =
     enc_string (Key e) @ enc_string (Command_entry e) @ enc_string (Question e) @
     enc_string (Model_entry e) @
     (case Response e of None \<Rightarrow> ''n'' | Some r \<Rightarrow> ''s'' @ enc_response r) @
     enc_int (CreatedAt e) @ enc_int (AccessedAt e) @ enc_int (AccessCount e)"

definition dec_nat :: "string \<Rightarrow> (nat \<times> string) option" where
  "dec_nat s =
     (case dropWhile (\<lambda>c. c = CHR ''1'') s of
        [] \<Rightarrow> None
      | c # rest \<Rightarrow>
          if c = CHR ''0'' then Some (length (takeWhile (\<lambda>c. c = CHR ''1'') s), rest)
          else None)"

definition dec_int :: "string \<Rightarrow> (int \<times> string) option" where
  "dec_int s =
     (case s of
        [] \<Rightarrow> None
      | c # rest \<Rightarrow>
          if c = CHR ''+'' then map_option (\<lambda>(n, r). (int n, r)) (dec_nat rest)
          else if c = CHR ''-'' then map_option (\<lambda>(n, r). (- int n, r)) (dec_nat rest)
          else None)"

definition dec_string :: "string \<Rightarrow> (string \<times> string) option" where
  "dec_string s =
     Option.bind (dec_nat s)
       (\<lambda>(n, r). if n \<le> length r then Some (take n r, drop n r) else None)"

definition dec_bool :: "string \<Rightarrow> (bool \<times> string) option" where
  "dec_bool s =
     (case s of
        [] \<Rightarrow> None
      | c # rest \<Rightarrow>
          if c = CHR ''t'' then Some (True, rest)
          else if c = CHR ''f'' then Some (False, rest)
          else None)"

definition dec_response :: "string \<Rightarrow> (QueryResponse \<times> string) option" where
  "dec_response s0 =
     Option.bind (dec_string s0) (\<lambda>(content, s1).
     Option.bind (dec_int s1) (\<lambda>(tin, s2).
     Option.bind (dec_int s2) (\<lambda>(tout, s3).
     Option.bind (dec_string s3) (\<lambda>(model, s4).
     Option.bind (dec_string s4) (\<lambda>(provider, s5).
     Option.bind (dec_bool s5) (\<lambda>(cached, s6).
       Some (\<lparr>Content = content, TokensInput = tin, TokensOutput = tout,
              Model = model, Provider = provider, Cached = cached\<rparr>, s6)))))))"

definition dec_optional_response :: "string \<Rightarrow> (QueryResponse option \<times> string) option" where
  "dec_optional_response s =
     (case s of
        [] \<Rightarrow> None
      | c # rest \<Rightarrow>
          if c = CHR ''n'' then Some (None, rest)
          else if c = CHR ''s'' then map_option (\<lambda>(r, s'). (Some r, s')) (dec_response rest)
          else None)"

definition dec_entry :: "string \<Rightarrow> (Entry \<times> string) option" where
  "dec_entry s0 =
     Option.bind (dec_string s0) (\<lambda>(key, s1).
     Option.bind (dec_string s1) (\<lambda>(cmd, s2).
     Option.bind (dec_string s2) (\<lambda>(q, s3).
     Option.bind (dec_string s3) (\<lambda>(model, s4).
     Option.bind (dec_optional_response s4) (\<lambda>(resp, s5).
     Option.bind (dec_int s5) (\<lambda>(created, s6).
     Option.bind (dec_int s6) (\<lambda>(accessed, s7).
     Option.bind (dec_int s7) (\<lambda>(n, s8).
       Some (\<lparr>Key = key, Command_entry = cmd, Question = q, Model_entry = model,
              Response = resp, CreatedAt = created, AccessedAt = accessed,
              AccessCount = n\<rparr>, s8)))))))))"

text \<open>An entry and a response as they are read back.\<close>

definition json_response :: "QueryResponse \<Rightarrow> QueryResponse" where
  "json_response r =
     r\<lparr>Content := json_string (Content r), Model := json_string (Model r),
       Provider := json_string (Provider r)\<rparr>"

definition json_entry :: "Entry \<Rightarrow> Entry" where
  "json_entry e =
     e\<lparr>Key := json_string (Key e), Command_entry := json_string (Command_entry e),
       Question := json_string (Question e), Model_entry := json_string (Model_entry e),
       Response := map_option json_response (Response e)\<rparr>"

definition json_lib :: stdlib where
  "json_lib =
     \<lparr>sha256_Sum256 = (\<lambda>data. data),
      json_MarshalIndent = (\<lambda>entry. Inr (enc_entry entry)),
      json_Unmarshal = (\<lambda>data.
        case dec_entry data of
          Some (e, []) \<Rightarrow> Inr e
        | _ \<Rightarrow> Inl (LibraryError ''invalid character''))\<rparr>"

text \<open>A response whose text ends in a byte that is no UTF-8.\<close>

definition invalid_utf8_response :: QueryResponse where
  "invalid_utf8_response =
     \<lparr>Content = ''ls '' @ [CHR 0xFF], TokensInput = 12, TokensOutput = 3,
      Model = ''llama3'', Provider = ''ollama'', Cached = False\<rparr>"

section \<open>Validation and retry\<close>

lemma bad_response_invalid:
  "\<not> Valid (Parse (parser_New ''ls'' False) (Content bad_response))"
  by code_simp

text \<open>
  C9. When the response carries \<^verbatim>\<open>Cached = true\<close> and does not parse to a valid
  result, \<^verbatim>\<open>parseAndValidate\<close> returns the error at once: the state is the one it
  started in, so the provider was not called and the cache was not written.
\<close>

theorem cached_failure_is_terminal:
  assumes "\<not> Valid (Parse (parser_New cmd explainFlag) (Content resp))"
    and "Cached resp"
  shows "parseAndValidate L ivc provider b resp cmd explainFlag q now w =
           (Inl (CachedResponseInvalid
                   (Error (Parse (parser_New cmd explainFlag) (Content resp)))), w)"
  using assms by (simp add: parseAndValidate_def Let_def)

theorem cached_failure_is_terminal_witness:
  "\<not> Valid (Parse (parser_New ''ls'' False) (Content (bad_response\<lparr>Cached := True\<rparr>))) \<and>
   Cached (bad_response\<lparr>Cached := True\<rparr>) \<and>
   (\<forall>L ivc (provider :: unit Provider_iface) b q now w.
      parseAndValidate L ivc provider b (bad_response\<lparr>Cached := True\<rparr>) ''ls'' False q now w =
        (Inl (CachedResponseInvalid
                (Error (Parse (parser_New ''ls'' False)
                          (Content (bad_response\<lparr>Cached := True\<rparr>))))), w))"
proof -
  have v: "\<not> Valid (Parse (parser_New ''ls'' False) (Content (bad_response\<lparr>Cached := True\<rparr>)))"
    using bad_response_invalid by simp
  have c: "Cached (bad_response\<lparr>Cached := True\<rparr>)" by simp
  show ?thesis
    by (intro conjI allI) (rule v, rule c, rule cached_failure_is_terminal [OF v c])
qed

text \<open>
  C8. When a response that did not come from the cache fails validation and every
  response of the provider fails validation too, \<^verbatim>\<open>parseAndValidate\<close> calls the
  provider once, with the retry request, and returns an error: the retry error when the
  call itself fails, the validation error of the retry response otherwise. The cache is
  not written.
\<close>

theorem one_retry_then_error:
  assumes "\<not> Cached resp"
    and "\<not> Valid (Parse (parser_New cmd explainFlag) (Content resp))"
    and "\<forall>ps req r ps'. Query provider ps req = (Inr r, ps') \<longrightarrow>
           \<not> Valid (Parse (parser_New cmd explainFlag) (Content r))"
  shows "parseAndValidate L ivc provider b resp cmd explainFlag q now w =
           (Inl (case fst (Query provider (backend w) (retry_request ivc b)) of
                   Inl e \<Rightarrow> LLMRetryFailed e
                 | Inr r \<Rightarrow>
                     UnableToGenerate
                       (Error (Parse (parser_New cmd explainFlag) (Content r)))),
            w\<lparr>backend := snd (Query provider (backend w) (retry_request ivc b)),
              calls := calls w @ [QueryCall (retry_request ivc b)]\<rparr>)"
proof (cases "Query provider (backend w) (retry_request ivc b)")
  case (Pair result ps')
  show ?thesis
  proof (cases result)
    case (Inl e)
    with Pair assms(1,2) show ?thesis
      by (simp add: parseAndValidate_def Let_def)
  next
    case (Inr r)
    with Pair assms(3) have "\<not> Valid (Parse (parser_New cmd explainFlag) (Content r))"
      by blast
    with Pair Inr assms(1,2) show ?thesis
      by (simp add: parseAndValidate_def Let_def)
  qed
qed

theorem one_retry_then_error_witness:
  "\<not> Cached bad_response \<and>
   \<not> Valid (Parse (parser_New ''ls'' False) (Content bad_response)) \<and>
   (\<forall>L ivc b q now w.
      parseAndValidate L ivc stub_provider b bad_response ''ls'' False q now w =
        (Inl (case fst (Query stub_provider (backend w) (retry_request ivc b)) of
                Inl e \<Rightarrow> LLMRetryFailed e
              | Inr r \<Rightarrow>
                  UnableToGenerate (Error (Parse (parser_New ''ls'' False) (Content r)))),
         w\<lparr>backend := snd (Query stub_provider (backend w) (retry_request ivc b)),
           calls := calls w @ [QueryCall (retry_request ivc b)]\<rparr>))"
proof -
  have c: "\<not> Cached bad_response" by (simp add: bad_response_def)
  have a: "\<forall>ps req r ps'. Query stub_provider ps req = (Inr r, ps') \<longrightarrow>
             \<not> Valid (Parse (parser_New ''ls'' False) (Content r))"
    using bad_response_invalid by (auto simp: stub_provider_def)
  show ?thesis
    by (intro conjI allI)
       (rule c, rule bad_response_invalid,
        rule one_retry_then_error [OF c bad_response_invalid a])
qed

text \<open>
  C10. The request of a retry. Its user prompt is the strict template with the tool name
  put in: it is the same prompt whatever man page and question the builder holds, so
  neither is interpolated. Its context window and stop sequences are the zero values.
  Its model, temperature, token limit and system prompt are those of the request
  \<^verbatim>\<open>queryWithCache\<close> prepares.
\<close>

theorem retry_request_shape:
  assumes "\<not> Valid (Parse (parser_New cmd ex) (Content resp))"
    and "\<not> Cached resp"
  shows "\<exists>req.
           calls (snd (parseAndValidate L ivc provider (NewBuilder cmd page q ex)
                         resp cmd ex q now w))
             = calls w @ [QueryCall req]
         \<and> UserPrompt req = fst StrictRetryPromptTemplate @ cmd @ snd StrictRetryPromptTemplate
         \<and> UserPrompt req = StrictRetryPrompt (NewBuilder cmd page' q' ex')
         \<and> ContextWindow req = 0 \<and> StopSequences req = []
         \<and> Model_req req = Model_req (query_request ivc (NewBuilder cmd page q ex))
         \<and> Temperature req = Temperature (query_request ivc (NewBuilder cmd page q ex))
         \<and> MaxTokens req = MaxTokens (query_request ivc (NewBuilder cmd page q ex))
         \<and> SystemPrompt req = SystemPrompt (query_request ivc (NewBuilder cmd page q ex))"
  using assms
  by (auto simp: parseAndValidate_def Let_def retry_request_def query_request_def
        StrictRetryPrompt_def NewBuilder_def Builder_SystemPrompt_def
      split: prod.splits sum.splits)

theorem retry_request_shape_witness:
  "\<not> Valid (Parse (parser_New ''ls'' False) (Content bad_response)) \<and>
   \<not> Cached bad_response \<and>
   (\<forall>L ivc page q now w page' q' ex'. \<exists>req.
           calls (snd (parseAndValidate L ivc stub_provider (NewBuilder ''ls'' page q False)
                         bad_response ''ls'' False q now w))
             = calls w @ [QueryCall req]
         \<and> UserPrompt req = fst StrictRetryPromptTemplate @ ''ls'' @ snd StrictRetryPromptTemplate
         \<and> UserPrompt req = StrictRetryPrompt (NewBuilder ''ls'' page' q' ex')
         \<and> ContextWindow req = 0 \<and> StopSequences req = []
         \<and> Model_req req = Model_req (query_request ivc (NewBuilder ''ls'' page q False))
         \<and> Temperature req = Temperature (query_request ivc (NewBuilder ''ls'' page q False))
         \<and> MaxTokens req = MaxTokens (query_request ivc (NewBuilder ''ls'' page q False))
         \<and> SystemPrompt req = SystemPrompt (query_request ivc (NewBuilder ''ls'' page q False)))"
proof -
  have c: "\<not> Cached bad_response" by (simp add: bad_response_def)
  show ?thesis
    by (intro conjI allI)
       (rule bad_response_invalid, rule c,
        rule retry_request_shape [OF bad_response_invalid c])
qed

section \<open>Streaming and blocking\<close>

lemma streamLoop_chunks:
  assumes "\<forall>r\<in>set pre. \<not> Done r" and "Done d"
  shows "streamLoop acc (map ChunkRecv (concat (map StreamQuery_respFunc (pre @ [d]))) @ rest)
         = Some (Inr (acc @ concat (map Message_Content pre), PromptEvalCount d, EvalCount d))"
  using assms
  by (induction pre arbitrary: acc) (auto simp: StreamQuery_respFunc_def)

lemma foldl_Query_respFunc:
  assumes "\<forall>r\<in>set pre. \<not> Done r"
  shows "foldl Query_respFunc (acc, i, j) pre = (acc @ concat (map Message_Content pre), i, j)"
  using assms by (induction pre arbitrary: acc) auto

text \<open>
  C7, as the code has it. The daemon sends \<^verbatim>\<open>ls\<close> and then, in its final response,
  \<^verbatim>\<open> -lhS\<close> with the token counts. The response function of \<^verbatim>\<open>Query\<close> appends the
  text of every response; the one of \<^verbatim>\<open>StreamQuery\<close> sends the terminal chunk with
  empty content and drops the text of a final response. The streaming path returns
  \<^verbatim>\<open>ls\<close>, the blocking path \<^verbatim>\<open>ls -lhS\<close>.
\<close>

theorem streaming_drops_final_text:
  "map_option fst (ExecuteQuery (OllamaProvider False) example_request True late_text_client)
     = Some (Inr \<lparr>Content = ''ls'', TokensInput = 12, TokensOutput = 3,
                  Model = ''llama3'', Provider = ''ollama'', Cached = False\<rparr>) \<and>
   map_option fst (ExecuteQuery (OllamaProvider False) example_request False late_text_client)
     = Some (Inr \<lparr>Content = ''ls -lhS'', TokensInput = 12, TokensOutput = 3,
                  Model = ''llama3'', Provider = ''ollama'', Cached = False\<rparr>)"
  by (simp add: ExecuteQuery_def executeStreamingQuery_def OllamaProvider_def
        OllamaProvider_StreamQuery_def OllamaProvider_Query_def late_text_client_def
        StreamQuery_respFunc_def text_response_def final_response_def example_request_def)

text \<open>
  The two paths differ in nothing else at such a stream: when the daemon delivers
  responses that are not final, then one final response without text, and the call ends
  without error, the streaming path and the blocking path both return, with the same
  response: the texts in order, the token counts of the final response. This holds
  whichever channel the consumer would pick at the end.
\<close>

theorem streaming_equals_blocking:
  assumes "client (ollama_chatReq req) = (pre @ [d], None)"
    and "\<forall>r\<in>set pre. \<not> Done r" and "Done d" and "Message_Content d = []"
  shows "ExecuteQuery (OllamaProvider pickErr) req True client
           = ExecuteQuery (OllamaProvider pickErr) req False client
       \<and> ExecuteQuery (OllamaProvider pickErr) req True client
           = Some (Inr \<lparr>Content = concat (map Message_Content pre),
                        TokensInput = PromptEvalCount d, TokensOutput = EvalCount d,
                        Model = Model_req req, Provider = ''ollama'', Cached = False\<rparr>, client)"
  using assms
  by (simp add: ExecuteQuery_def executeStreamingQuery_def OllamaProvider_def
        OllamaProvider_StreamQuery_def OllamaProvider_Query_def streamLoop_chunks
        foldl_Query_respFunc del: map_append concat_append)

theorem streaming_equals_blocking_witness:
  "plain_client (ollama_chatReq example_request)
     = ([text_response ''ls'', text_response '' -lhS''] @ [final_response []], None) \<and>
   Done (final_response []) \<and> Message_Content (final_response []) = [] \<and>
   ExecuteQuery (OllamaProvider True) example_request True plain_client
     = ExecuteQuery (OllamaProvider True) example_request False plain_client \<and>
   ExecuteQuery (OllamaProvider True) example_request True plain_client
     = Some (Inr \<lparr>Content = ''ls -lhS'', TokensInput = 12, TokensOutput = 3,
                  Model = ''llama3'', Provider = ''ollama'', Cached = False\<rparr>, plain_client)"
proof -
  have a: "plain_client (ollama_chatReq example_request)
     = ([text_response ''ls'', text_response '' -lhS''] @ [final_response []], None)"
    by (simp add: plain_client_def)
  have b: "\<forall>r\<in>set [text_response ''ls'', text_response '' -lhS'']. \<not> Done r"
    by (simp add: text_response_def)
  have c: "Done (final_response [])" and d: "Message_Content (final_response []) = []"
    by (simp_all add: final_response_def)
  have v: "\<lparr>Content = concat (map Message_Content
                          [text_response ''ls'', text_response '' -lhS'']),
            TokensInput = PromptEvalCount (final_response []),
            TokensOutput = EvalCount (final_response []),
            Model = Model_req example_request, Provider = ''ollama'', Cached = False\<rparr>
         = \<lparr>Content = ''ls -lhS'', TokensInput = 12, TokensOutput = 3,
            Model = ''llama3'', Provider = ''ollama'', Cached = False\<rparr>"
    by (simp add: text_response_def final_response_def example_request_def)
  note t = streaming_equals_blocking [of plain_client example_request
        "[text_response ''ls'', text_response '' -lhS'']" "final_response []" True,
        OF a b c d, unfolded v]
  show ?thesis
    by (intro conjI) (rule a, rule c, rule d, rule t [THEN conjunct1], rule t [THEN conjunct2])
qed

section \<open>The command-only parser\<close>

lemma first_command_line_find:
  "first_command_line cmd ls = find (\<lambda>l. l \<noteq> [] \<and> HasPrefix l cmd) (map TrimSpace ls)"
  by (induction ls) (auto simp: Let_def)





text \<open>
  C5, as the code has it. The second line of this text is not empty and starts with
  \<^verbatim>\<open>ls\<close>, and the text has no refusal phrase, but the result is invalid: the text as a
  whole must start with the tool name before its lines are looked at.
\<close>

theorem later_line_is_not_found:
  "\<not> Contains (TrimSpace ''Here is the command:\<newline>ls -lhS'') refusal \<and>
   find (\<lambda>l. l \<noteq> [] \<and> HasPrefix l ''ls'')
     (map TrimSpace (Split_nl (TrimSpace (stripMarkdownCodeBlocks
        (TrimSpace ''Here is the command:\<newline>ls -lhS''))))) = Some ''ls -lhS'' \<and>
   \<not> Valid (Parse (parser_New ''ls'' False) ''Here is the command:\<newline>ls -lhS'')"
  by code_simp

text \<open>
  C5, amended. Let \<open>r\<close> be the text trimmed and stripped of its code fence, with no refusal
  phrase and more than one line. When \<open>r\<close> itself starts with the tool name, the result is
  valid and its command is the first line that, trimmed, is not empty and starts with the
  tool name; it is invalid when no line is such. When \<open>r\<close> does not start with the tool
  name, the result is invalid, whatever its lines are.
\<close>

theorem multi_line_command:
  assumes "\<not> Contains (TrimSpace raw) refusal"
    and "r = TrimSpace (stripMarkdownCodeBlocks (TrimSpace raw))"
    and "length (Split_nl r) > 1"
  shows "(HasPrefix r cmd \<longrightarrow>
            (\<forall>l. find (\<lambda>l. l \<noteq> [] \<and> HasPrefix l cmd) (map TrimSpace (Split_nl r)) = Some l
                 \<longrightarrow> Parse (parser_New cmd False) raw = valid l [])) \<and>
         (HasPrefix r cmd \<longrightarrow>
            find (\<lambda>l. l \<noteq> [] \<and> HasPrefix l cmd) (map TrimSpace (Split_nl r)) = None
              \<longrightarrow> Parse (parser_New cmd False) raw = invalid MultiLineNoCommand) \<and>
         (\<not> HasPrefix r cmd \<longrightarrow>
            Parse (parser_New cmd False) raw = invalid (NotStartWithCommand cmd))"
  using assms
  by (simp add: Parse_def parser_New_def parseDefaultMode_def Let_def first_command_line_find)

theorem multi_line_command_witness:
  "\<not> Contains (TrimSpace ''ls -lhS\<newline>\<newline>Sorts by size.'') refusal \<and>
   length (Split_nl (TrimSpace (stripMarkdownCodeBlocks
     (TrimSpace ''ls -lhS\<newline>\<newline>Sorts by size.'')))) > 1 \<and>
   HasPrefix (TrimSpace (stripMarkdownCodeBlocks
     (TrimSpace ''ls -lhS\<newline>\<newline>Sorts by size.''))) ''ls'' \<and>
   find (\<lambda>l. l \<noteq> [] \<and> HasPrefix l ''ls'')
     (map TrimSpace (Split_nl (TrimSpace (stripMarkdownCodeBlocks
        (TrimSpace ''ls -lhS\<newline>\<newline>Sorts by size.''))))) = Some ''ls -lhS'' \<and>
   Parse (parser_New ''ls'' False) ''ls -lhS\<newline>\<newline>Sorts by size.'' = valid ''ls -lhS'' []"
proof -
  have a: "\<not> Contains (TrimSpace ''ls -lhS\<newline>\<newline>Sorts by size.'') refusal"
    by code_simp
  have b: "length (Split_nl (TrimSpace (stripMarkdownCodeBlocks
     (TrimSpace ''ls -lhS\<newline>\<newline>Sorts by size.'')))) > 1"
    by code_simp
  have c: "HasPrefix (TrimSpace (stripMarkdownCodeBlocks
     (TrimSpace ''ls -lhS\<newline>\<newline>Sorts by size.''))) ''ls''"
    by code_simp
  have d: "find (\<lambda>l. l \<noteq> [] \<and> HasPrefix l ''ls'')
     (map TrimSpace (Split_nl (TrimSpace (stripMarkdownCodeBlocks
        (TrimSpace ''ls -lhS\<newline>\<newline>Sorts by size.''))))) = Some ''ls -lhS''"
    by code_simp
  from a b c d multi_line_command [OF a refl b, of "''ls''"]
  show ?thesis by blast
qed

section \<open>The fingerprint\<close>

lemma unhex_hex_digit_all: "\<forall>k \<in> set [0..<16]. unhex_digit (hex_digit k) = k"
  by code_simp

lemma unhex_hex_digit: "n < 16 \<Longrightarrow> unhex_digit (hex_digit n) = n"
  using unhex_hex_digit_all by auto

lemma of_char_div16: "(of_char c :: nat) div 16 < 16"
proof -
  have "(of_char c :: nat) < 16 * 16" using nat_of_char_less_256 [of c] by simp
  then show ?thesis by (rule less_mult_imp_div_less)
qed

lemma unhex_hex_byte: "unhex_byte (hex_byte c) = of_char c"
proof -
  have "unhex_digit (hex_digit (of_char c div 16)) = of_char c div 16"
    by (rule unhex_hex_digit) (rule of_char_div16)
  moreover have "unhex_digit (hex_digit (of_char c mod 16)) = of_char c mod 16"
    by (rule unhex_hex_digit) simp
  ultimately show ?thesis
    by (simp add: unhex_byte_def hex_byte_def)
qed

lemma hex_byte_inj: "hex_byte a = hex_byte b \<Longrightarrow> a = b"
proof -
  assume "hex_byte a = hex_byte b"
  then have "unhex_byte (hex_byte a) = unhex_byte (hex_byte b)" by simp
  then have "(of_char a :: nat) = of_char b" by (simp only: unhex_hex_byte)
  then show "a = b" by simp
qed

lemma hex_Cons: "hex (x # xs) = hex_byte x @ hex xs"
  by (simp add: hex_def)

lemma length_hex_byte: "length (hex_byte c) = 2"
  by (simp add: hex_byte_def)

lemma hex_inj: "hex a = hex b \<Longrightarrow> a = b"
proof (induction a arbitrary: b)
  case Nil
  then show ?case by (cases b) (simp_all add: hex_def hex_byte_def)
next
  case (Cons x xs)
  show ?case
  proof (cases b)
    case Nil
    with Cons.prems show ?thesis by (simp add: hex_def hex_byte_def)
  next
    case (Cons y ys)
    with Cons.prems have h: "hex_byte x @ hex xs = hex_byte y @ hex ys"
      by (simp only: hex_Cons)
    have l: "length (hex_byte x) = length (hex_byte y)"
      by (simp only: length_hex_byte)
    note e = append_eq_append_conv [THEN iffD1, OF disjI1 [OF l] h]
    from e have "x = y" by (simp only: hex_byte_inj)
    moreover from e Cons.IH [of ys] have "xs = ys" by (simp only:)
    ultimately show ?thesis using Cons by (simp only:)
  qed
qed

lemma append_delim_eq:
  "x \<notin> set a \<Longrightarrow> x \<notin> set b \<Longrightarrow> a @ x # r = b @ x # s \<Longrightarrow> a = b \<and> r = s"
proof (induction a arbitrary: b)
  case Nil
  then show ?case by (cases b) simp_all
next
  case (Cons z a)
  show ?case
  proof (cases b)
    case Nil
    with Cons.prems show ?thesis by simp
  next
    case (Cons y b')
    with Cons.prems have "z = y" and "a @ x # r = b' @ x # s"
      and "x \<notin> set a" and "x \<notin> set b'"
      by simp_all
    with Cons.IH [of b'] Cons show ?thesis by simp
  qed
qed

lemma key_data_inj:
  assumes "CHR '':'' \<notin> set c1" "CHR '':'' \<notin> set q1"
    and "CHR '':'' \<notin> set c2" "CHR '':'' \<notin> set q2"
    and "key_data c1 q1 m1 = key_data c2 q2 m2"
  shows "c1 = c2 \<and> q1 = q2 \<and> m1 = m2"
proof -
  from assms(5)
  have e: "c1 @ CHR '':'' # (q1 @ CHR '':'' # m1) = c2 @ CHR '':'' # (q2 @ CHR '':'' # m2)"
    by (simp add: key_data_def)
  note c = append_delim_eq [OF assms(1) assms(3) e]
  note d = append_delim_eq [OF assms(2) assms(4) c [THEN conjunct2]]
  from c d show ?thesis by (simp only:)
qed

text \<open>
  C1, as the code has it. The three fields are joined with a colon and nothing escapes a
  colon inside a field, so two triples can give the same bytes to the digest: a colon
  may stand in a question, and the model ids of Ollama have one (\<^verbatim>\<open>llama3:8b\<close>).
\<close>

theorem colon_in_field_collides:
  "(''ls'', ''list files:llama3'', ''8b'') \<noteq> (''ls'', ''list files'', ''llama3:8b'') \<and>
   key_data ''ls'' ''list files:llama3'' ''8b'' = key_data ''ls'' ''list files'' ''llama3:8b''"
  by (simp add: key_data_def)

text \<open>
  C1, amended: for two distinct triples whose tool names and questions have no colon (the
  model ids may), the bytes given to the digest differ, and the two fingerprints are equal
  exactly when SHA-256 gives these two different inputs the same digest. The fingerprint
  is a function of the triple by construction.
\<close>

theorem fingerprints_differ:
  assumes "CHR '':'' \<notin> set c1" "CHR '':'' \<notin> set q1"
    and "CHR '':'' \<notin> set c2" "CHR '':'' \<notin> set q2"
    and "(c1, q1, m1) \<noteq> (c2, q2, m2)"
  shows "key_data c1 q1 m1 \<noteq> key_data c2 q2 m2 \<and>
         (GenerateKey L c1 q1 m1 = GenerateKey L c2 q2 m2 \<longleftrightarrow>
            sha256_Sum256 L (key_data c1 q1 m1) = sha256_Sum256 L (key_data c2 q2 m2))"
proof
  from assms key_data_inj [of c1 q1 c2 q2 m1 m2]
  show "key_data c1 q1 m1 \<noteq> key_data c2 q2 m2" by blast
next
  show "GenerateKey L c1 q1 m1 = GenerateKey L c2 q2 m2 \<longleftrightarrow>
          sha256_Sum256 L (key_data c1 q1 m1) = sha256_Sum256 L (key_data c2 q2 m2)"
    unfolding GenerateKey_def
  proof
    assume "hex (sha256_Sum256 L (key_data c1 q1 m1)) = hex (sha256_Sum256 L (key_data c2 q2 m2))"
    then show "sha256_Sum256 L (key_data c1 q1 m1) = sha256_Sum256 L (key_data c2 q2 m2)"
      by (rule hex_inj)
  next
    assume "sha256_Sum256 L (key_data c1 q1 m1) = sha256_Sum256 L (key_data c2 q2 m2)"
    then show "hex (sha256_Sum256 L (key_data c1 q1 m1)) = hex (sha256_Sum256 L (key_data c2 q2 m2))"
      by (simp only:)
  qed
qed

theorem fingerprints_differ_witness:
  "CHR '':'' \<notin> set ''ls'' \<and> CHR '':'' \<notin> set ''how do I sort by size'' \<and>
   (''ls'', ''how do I sort by size'', ''llama3:8b'')
      \<noteq> (''ls'', ''how do I sort by size'', ''llama3:70b'') \<and>
   key_data ''ls'' ''how do I sort by size'' ''llama3:8b''
      \<noteq> key_data ''ls'' ''how do I sort by size'' ''llama3:70b'' \<and>
   (\<forall>L. GenerateKey L ''ls'' ''how do I sort by size'' ''llama3:8b''
            = GenerateKey L ''ls'' ''how do I sort by size'' ''llama3:70b'' \<longleftrightarrow>
          sha256_Sum256 L (key_data ''ls'' ''how do I sort by size'' ''llama3:8b'')
            = sha256_Sum256 L (key_data ''ls'' ''how do I sort by size'' ''llama3:70b''))"
proof -
  have a: "CHR '':'' \<notin> set ''ls''" and b: "CHR '':'' \<notin> set ''how do I sort by size''"
    by simp_all
  have c: "(''ls'', ''how do I sort by size'', ''llama3:8b'')
      \<noteq> (''ls'', ''how do I sort by size'', ''llama3:70b'')"
    by simp
  note t = fingerprints_differ [OF a b a b c]
  have d: "\<forall>L. GenerateKey L ''ls'' ''how do I sort by size'' ''llama3:8b''
            = GenerateKey L ''ls'' ''how do I sort by size'' ''llama3:70b'' \<longleftrightarrow>
          sha256_Sum256 L (key_data ''ls'' ''how do I sort by size'' ''llama3:8b'')
            = sha256_Sum256 L (key_data ''ls'' ''how do I sort by size'' ''llama3:70b'')"
    using t [THEN conjunct2] ..
  from a b c t [THEN conjunct1] d show ?thesis by (simp only: simp_thms)
qed

section \<open>The cache store\<close>

lemma GenerateKey_example [simp]:
  "GenerateKey (example_lib e) ''ls'' ''how do I sort by size'' ''llama3'' = example_key"
  by (simp add: GenerateKey_def example_lib_def example_key_def)

lemma Set_entry_example:
  "Set_entry (example_lib e) 1000 ''ls'' ''how do I sort by size'' ''llama3'' r = entry_of r"
  by (simp add: Set_entry_def entry_of_def Let_def)

lemma Key_entry_of [simp]: "Key (entry_of r) = example_key"
  by (simp add: entry_of_def)

lemma example_path_Join: "filepath_Join ''/cache'' (example_key @ ''.json'') = example_path"
  by code_simp

subsection \<open>Writing an entry and reading it back\<close>

lemma dec_nat_enc: "dec_nat (enc_nat n @ rest) = Some (n, rest)"
proof -
  have d: "dropWhile (\<lambda>c. c = CHR ''1'') (replicate n (CHR ''1'') @ CHR ''0'' # rest)
           = CHR ''0'' # rest"
    by (induction n) simp_all
  have t: "takeWhile (\<lambda>c. c = CHR ''1'') (replicate n (CHR ''1'') @ CHR ''0'' # rest)
           = replicate n (CHR ''1'')"
    by (induction n) simp_all
  show ?thesis
    by (simp add: dec_nat_def enc_nat_def d t)
qed

lemma dec_int_enc: "dec_int (enc_int i @ rest) = Some (i, rest)"
  by (simp add: dec_int_def enc_int_def dec_nat_enc)

lemma dec_string_enc: "dec_string (enc_string s @ rest) = Some (json_string s, rest)"
  by (simp add: dec_string_def enc_string_def dec_nat_enc)

lemma dec_bool_enc: "dec_bool (enc_bool b @ rest) = Some (b, rest)"
  by (simp add: dec_bool_def enc_bool_def)

lemma dec_response_enc: "dec_response (enc_response r @ rest) = Some (json_response r, rest)"
  by (simp add: dec_response_def enc_response_def dec_string_enc dec_int_enc dec_bool_enc
        json_response_def)

lemma dec_optional_response_enc:
  "dec_optional_response ((case ro of None \<Rightarrow> ''n'' | Some r \<Rightarrow> ''s'' @ enc_response r) @ rest)
   = Some (map_option json_response ro, rest)"
  by (cases ro) (simp_all add: dec_optional_response_def dec_response_enc)

lemma dec_entry_enc: "dec_entry (enc_entry e @ rest) = Some (json_entry e, rest)"
  by (simp add: dec_entry_def enc_entry_def dec_string_enc dec_int_enc
        dec_optional_response_enc json_entry_def)

lemma json_string_ascii: "\<forall>c\<in>set s. (of_char c :: nat) < 128 \<Longrightarrow> json_string s = s"
proof (induction s)
  case Nil
  show ?case by (simp add: json_string.simps)
next
  case (Cons c s)
  then have "json_string (c # s) = c # json_string s"
    by (subst json_string.simps) simp
  with Cons show ?case by simp
qed


lemma json_lib_Unmarshal: "json_Unmarshal json_lib (enc_entry e) = Inr (json_entry e)"
  using dec_entry_enc [of e "[]"] by (simp add: json_lib_def)

lemma int64_small: "0 \<le> x \<Longrightarrow> x < 2 ^ 63 \<Longrightarrow> int64 x = x"
  by (simp add: int64_def)

lemma not_expired_within_age:
  assumes "maxAgeDays c \<le> 0 \<or>
             (maxAgeDays c \<le> 106751 \<and> now' \<le> now + maxAgeDays c * 24 * Hour)"
  shows "\<not> isExpired c now' now"
proof (cases "maxAgeDays c \<le> 0")
  case True
  then show ?thesis by (simp add: isExpired_def)
next
  case False
  with assms have d: "0 < maxAgeDays c" "maxAgeDays c \<le> 106751"
    and n: "now' \<le> now + maxAgeDays c * 24 * Hour"
    by simp_all
  from d have "0 \<le> maxAgeDays c * 24 * Hour" and "maxAgeDays c * 24 * Hour < 2 ^ 63"
    by (simp_all add: Hour_def)
  then have "int64 (maxAgeDays c * 24 * Hour) = maxAgeDays c * 24 * Hour"
    by (rule int64_small)
  with False n show ?thesis by (simp add: isExpired_def Let_def)
qed

text \<open>
  What \<^verbatim>\<open>Get\<close> returns after a successful \<^verbatim>\<open>Set\<close> is the response of the entry that
  the file decodes to, with the cache flag set.
\<close>

lemma Get_after_Set:
  assumes "Set_cache L c now t q m R fs = (None, fs1)"
    and "\<forall>data. json_MarshalIndent L (Set_entry L now t q m R) = Inr data \<longrightarrow>
           json_Unmarshal L data = Inr e"
    and "\<not> isExpired c now' (CreatedAt e)"
  shows "fst (Get L c now' t q m fs1) = map_option (\<lambda>r. r\<lparr>Cached := True\<rparr>) (Response e)"
proof -
  let ?e = "Set_entry L now t q m R"
  let ?path = "filepath_Join (cacheDir c) (GenerateKey L t q m @ ''.json'')"
  have k: "Key ?e = GenerateKey L t q m"
    by (simp add: Set_entry_def Let_def)
  from assms(1) obtain data where m: "json_MarshalIndent L ?e = Inr data"
    and f: "files fs1 ?path = Some data"
    by (auto simp: Set_cache_def saveEntry_def Let_def k
          split: option.splits sum.splits)
  from assms(2) m have u: "json_Unmarshal L data = Inr e" by blast
  from f u assms(3) show ?thesis
    by (cases "Response e") (simp_all add: Get_def Let_def ReadFile_def)
qed

lemma Set_cache_json_lib:
  "fst (Set_cache json_lib c now t q m R empty_fs) = None"
  by (simp add: Set_cache_def saveEntry_def empty_fs_def Let_def json_lib_def)

lemma json_response_invalid_utf8:
  "json_response invalid_utf8_response
   = invalid_utf8_response\<lparr>Content := ''ls '' @ replacement_rune\<rparr>"
proof -
  have "json_string (Content invalid_utf8_response) = ''ls '' @ replacement_rune"
    and "json_string (Model invalid_utf8_response) = Model invalid_utf8_response"
    and "json_string (Provider invalid_utf8_response) = Provider invalid_utf8_response"
    by code_simp+
  then show ?thesis by (simp add: json_response_def)
qed

text \<open>
  C6, as the code has it. The entry is stored as JSON text, and JSON text is valid UTF-8:
  a response whose content has a byte that is no UTF-8 comes back with U+FFFD in its place.
  \<^verbatim>\<open>Set\<close> succeeds here and the entry is ten nanoseconds old in a cache of thirty days.
\<close>

theorem invalid_utf8_is_not_returned:
  "fst (Set_cache json_lib example_cache 10 ''ls'' ''how do I sort by size'' ''llama3''
          invalid_utf8_response empty_fs) = None \<and>
   fst (Get json_lib example_cache 20 ''ls'' ''how do I sort by size'' ''llama3''
          (snd (Set_cache json_lib example_cache 10 ''ls'' ''how do I sort by size'' ''llama3''
                  invalid_utf8_response empty_fs)))
     = Some (invalid_utf8_response\<lparr>Content := ''ls '' @ replacement_rune, Cached := True\<rparr>) \<and>
   Content invalid_utf8_response \<noteq> ''ls '' @ replacement_rune"
proof -
  let ?e = "Set_entry json_lib 10 ''ls'' ''how do I sort by size'' ''llama3''
              invalid_utf8_response"
  let ?s = "Set_cache json_lib example_cache 10 ''ls'' ''how do I sort by size'' ''llama3''
              invalid_utf8_response empty_fs"
  have a: "fst ?s = None" by (rule Set_cache_json_lib)
  then have a': "?s = (None, snd ?s)" by (metis prod.collapse)
  have u: "\<forall>data. json_MarshalIndent json_lib ?e = Inr data \<longrightarrow>
             json_Unmarshal json_lib data = Inr (json_entry ?e)"
    using json_lib_Unmarshal [of ?e] by (simp add: json_lib_def)
  have x: "\<not> isExpired example_cache 20 (CreatedAt (json_entry ?e))"
    by (simp add: json_entry_def Set_entry_def Let_def isExpired_def example_cache_def
          cache_New_def int64_def Hour_def)
  have r: "Response (json_entry ?e)
           = Some (invalid_utf8_response\<lparr>Content := ''ls '' @ replacement_rune\<rparr>)"
    by (simp add: json_entry_def Set_entry_def Let_def json_response_invalid_utf8)
  have n: "Content invalid_utf8_response \<noteq> ''ls '' @ replacement_rune"
    by (simp add: invalid_utf8_response_def replacement_rune_def)
  from Get_after_Set [OF a' u x] r a n show ?thesis by simp
qed

text \<open>
  Two more things the claim leaves out. A \<^verbatim>\<open>Set\<close> that reports an error has written
  nothing, so \<^verbatim>\<open>Get\<close> misses. And the age limit is a 64-bit number of nanoseconds: from
  106752 days on the product wraps to a negative duration, and an entry is expired the
  moment it is written.
\<close>

lemma failed_Set_then_Get_misses:
  "Set_cache json_lib c now t q m R (empty_fs\<lparr>WriteFile_err := Some err\<rparr>)
     = (Some (WriteFailed err), empty_fs\<lparr>WriteFile_err := Some err\<rparr>) \<and>
   fst (Get json_lib c now' t q m (empty_fs\<lparr>WriteFile_err := Some err\<rparr>)) = None"
  by (simp add: Set_cache_def saveEntry_def empty_fs_def Let_def json_lib_def
        Get_def ReadFile_def)

lemma fresh_entry_is_expired: "isExpired (cache_New dir 106752) now now"
  by (simp add: isExpired_def cache_New_def Let_def int64_def Hour_def)

lemma fresh_entry_is_missed:
  "fst (Get json_lib (cache_New dir 106752) now t q m
          (snd (Set_cache json_lib (cache_New dir 106752) now t q m R empty_fs))) = None"
proof -
  let ?c = "cache_New dir 106752"
  let ?path = "filepath_Join (cacheDir ?c) (GenerateKey json_lib t q m @ ''.json'')"
  let ?e = "Set_entry json_lib now t q m R"
  have k: "Key ?e = GenerateKey json_lib t q m" and cr: "CreatedAt (json_entry ?e) = now"
    by (simp_all add: Set_entry_def json_entry_def Let_def)
  have f: "files (snd (Set_cache json_lib ?c now t q m R empty_fs)) ?path = Some (enc_entry ?e)"
    by (simp add: Set_cache_def saveEntry_def empty_fs_def Let_def k) (simp add: json_lib_def)
  from f json_lib_Unmarshal [of ?e] fresh_entry_is_expired [of dir now] show ?thesis
    by (simp add: Get_def Let_def ReadFile_def cr)
qed

text \<open>
  C6, amended. When \<^verbatim>\<open>Set\<close> reports success, the text written for its entry decodes to
  that entry (as \<^verbatim>\<open>encoding/json\<close> does for strings that are valid UTF-8), and the
  cache either never expires (a maximum age of zero or less) or has a maximum age of at
  most 106751 days and \<^verbatim>\<open>Get\<close> comes no later than that many days after \<^verbatim>\<open>Set\<close>, then
  \<^verbatim>\<open>Get\<close> finds a response: the one given to \<^verbatim>\<open>Set\<close>, with the cache flag set.
\<close>

theorem set_then_get:
  assumes "\<forall>data. json_MarshalIndent L (Set_entry L now t q m R) = Inr data \<longrightarrow>
             json_Unmarshal L data = Inr (Set_entry L now t q m R)"
    and "Set_cache L c now t q m R fs = (None, fs1)"
    and "maxAgeDays c \<le> 0 \<or>
           (maxAgeDays c \<le> 106751 \<and> now' \<le> now + maxAgeDays c * 24 * Hour)"
  shows "fst (Get L c now' t q m fs1) = Some (R\<lparr>Cached := True\<rparr>)"
proof -
  let ?e = "Set_entry L now t q m R"
  have cr: "CreatedAt ?e = now" and rs: "Response ?e = Some R"
    by (simp_all add: Set_entry_def Let_def)
  from assms(3) have "\<not> isExpired c now' (CreatedAt ?e)"
    unfolding cr by (rule not_expired_within_age)
  from Get_after_Set [OF assms(2) assms(1) this] rs show ?thesis by simp
qed

lemma json_entry_good:
  "json_entry (Set_entry json_lib 10 ''ls'' ''how do I sort by size'' ''llama3'' good_response)
   = Set_entry json_lib 10 ''ls'' ''how do I sort by size'' ''llama3'' good_response"
  by code_simp

theorem set_then_get_witness:
  "json_Unmarshal json_lib
      (enc_entry (Set_entry json_lib 10 ''ls'' ''how do I sort by size'' ''llama3'' good_response))
     = Inr (Set_entry json_lib 10 ''ls'' ''how do I sort by size'' ''llama3'' good_response) \<and>
   fst (Set_cache json_lib example_cache 10 ''ls'' ''how do I sort by size'' ''llama3''
          good_response empty_fs) = None \<and>
   maxAgeDays example_cache \<le> 106751 \<and>
   20 \<le> 10 + maxAgeDays example_cache * 24 * Hour \<and>
   fst (Get json_lib example_cache 20 ''ls'' ''how do I sort by size'' ''llama3''
          (snd (Set_cache json_lib example_cache 10 ''ls'' ''how do I sort by size'' ''llama3''
                  good_response empty_fs)))
     = Some (good_response\<lparr>Cached := True\<rparr>)"
proof -
  let ?e = "Set_entry json_lib 10 ''ls'' ''how do I sort by size'' ''llama3'' good_response"
  let ?s = "Set_cache json_lib example_cache 10 ''ls'' ''how do I sort by size'' ''llama3''
              good_response empty_fs"
  have d: "json_Unmarshal json_lib (enc_entry ?e) = Inr ?e"
    using json_lib_Unmarshal [of ?e] by (simp only: json_entry_good)
  then have u: "\<forall>data. json_MarshalIndent json_lib ?e = Inr data \<longrightarrow>
             json_Unmarshal json_lib data = Inr ?e"
    by (simp add: json_lib_def)
  have a: "fst ?s = None" by (rule Set_cache_json_lib)
  then have a': "?s = (None, snd ?s)" by (metis prod.collapse)
  have g1: "maxAgeDays example_cache \<le> 106751"
    and g2: "20 \<le> 10 + maxAgeDays example_cache * 24 * Hour"
    by (simp_all add: example_cache_def cache_New_def Hour_def)
  from g1 g2 have g: "maxAgeDays example_cache \<le> 0 \<or>
      (maxAgeDays example_cache \<le> 106751 \<and> 20 \<le> 10 + maxAgeDays example_cache * 24 * Hour)"
    by simp
  note t = set_then_get [OF u a' g]
  from d a g1 g2 t show ?thesis by (simp only: simp_thms)
qed

text \<open>
  C4, as the code has it. When the file of a fingerprint holds a text that
  \<^verbatim>\<open>json.Unmarshal\<close> rejects, \<^verbatim>\<open>Get\<close> reports a miss and leaves the directory as it
  is: the file stays. Only the two later branches (an expired entry, an entry without a
  response) call \<^verbatim>\<open>os.Remove\<close>.
\<close>

theorem unparsable_entry_is_kept:
  assumes "files fs (filepath_Join (cacheDir c) (GenerateKey L t q m @ ''.json'')) = Some data"
    and "json_Unmarshal L data = Inl err"
  shows "Get L c now t q m fs = (None, fs)"
  using assms by (simp add: Get_def Let_def ReadFile_def)

theorem unparsable_entry_is_kept_witness:
  "files garbage_fs example_path = Some ''not json'' \<and>
   json_Unmarshal (example_lib (entry_of good_response)) ''not json''
     = Inl (LibraryError ''invalid character'') \<and>
   Get (example_lib (entry_of good_response)) example_cache 2000
     ''ls'' ''how do I sort by size'' ''llama3'' garbage_fs = (None, garbage_fs) \<and>
   files (snd (Get (example_lib (entry_of good_response)) example_cache 2000
     ''ls'' ''how do I sort by size'' ''llama3'' garbage_fs)) example_path = Some ''not json''"
proof -
  let ?L = "example_lib (entry_of good_response)"
  have p: "filepath_Join (cacheDir example_cache)
             (GenerateKey ?L ''ls'' ''how do I sort by size'' ''llama3'' @ ''.json'')
           = example_path"
    by (simp add: example_cache_def cache_New_def example_path_Join)
  have a: "files garbage_fs example_path = Some ''not json''"
    by (simp add: garbage_fs_def)
  have b: "json_Unmarshal ?L ''not json'' = Inl (LibraryError ''invalid character'')"
    by (simp add: example_lib_def)
  note t = unparsable_entry_is_kept [of garbage_fs example_cache ?L
             "''ls''" "''how do I sort by size''" "''llama3''", unfolded p, OF a b, of 2000]
  from a b t show ?thesis by (simp only: snd_conv simp_thms)
qed

section \<open>The cache and validation\<close>

lemma Parse_bad_response:
  "Parse (parser_New ''ls'' False) ''rm -rf /'' = invalid (NotStartWithCommand ''ls'')"
  by code_simp

lemma queryWithCache_example:
  "queryWithCache (example_lib (entry_of bad_response)) example_invocation stub_provider
     (NewBuilder ''ls'' page ''how do I sort by size'' False)
     ''ls'' ''how do I sort by size'' 1000 example_world
   = Some (Inr bad_response,
       \<lparr>fsys = empty_fs\<lparr>files := [example_path \<mapsto> ''entry '' @ example_key]\<rparr>,
        backend = (),
        calls = [QueryCall (query_request example_invocation
                   (NewBuilder ''ls'' page ''how do I sort by size'' False))]\<rparr>)"
  by (simp add: queryWithCache_def Let_def example_invocation_def example_world_def
        Get_def ReadFile_def empty_fs_def example_path_Join cache_New_def
        ExecuteQuery_def stub_provider_def Set_cache_def Set_entry_example saveEntry_def)
    (simp add: example_lib_def example_path_Join)

lemma bad_response_fields:
  "Content bad_response = ''rm -rf /''" "Cached bad_response = False"
  by (simp_all add: bad_response_def)

lemma stub_provider_Query: "Query stub_provider ps req = (Inr bad_response, ps)"
  by (simp add: stub_provider_def)

lemma parseAndValidate_example:
  "parseAndValidate L example_invocation stub_provider b bad_response ''ls'' False q now w
   = (Inl (UnableToGenerate (Some (NotStartWithCommand ''ls''))),
      w\<lparr>backend := backend w,
        calls := calls w @ [QueryCall (retry_request example_invocation b)]\<rparr>)"
  by (simp add: parseAndValidate_def Let_def bad_response_fields stub_provider_Query
        Parse_bad_response invalid_def)

text \<open>
  C2, as the code has it. The cache is empty, caching is on, and the provider answers
  every request with \<^verbatim>\<open>rm -rf /\<close> for the tool \<^verbatim>\<open>ls\<close>. The query ends with the
  validation error of the retry, after two calls to the provider, and the file of the
  fingerprint now holds the entry of the first, invalid response: \<^verbatim>\<open>queryWithCache\<close>
  writes the cache before \<^verbatim>\<open>parseAndValidate\<close> parses anything.
\<close>

theorem invalid_response_is_cached:
  "files (fsys example_world) example_path = None \<and>
   map_option fst
     (run (example_lib (entry_of bad_response)) example_invocation stub_provider
        ''ls'' page ''how do I sort by size'' False 1000 1001 example_world)
     = Some (Inl (UnableToGenerate (Some (NotStartWithCommand ''ls'')))) \<and>
   map_option (\<lambda>r. files (fsys (snd r)) example_path)
     (run (example_lib (entry_of bad_response)) example_invocation stub_provider
        ''ls'' page ''how do I sort by size'' False 1000 1001 example_world)
     = Some (Some (''entry '' @ example_key)) \<and>
   json_Unmarshal (example_lib (entry_of bad_response)) (''entry '' @ example_key)
     = Inr (entry_of bad_response) \<and>
   map_option (\<lambda>r. length (calls (snd r)))
     (run (example_lib (entry_of bad_response)) example_invocation stub_provider
        ''ls'' page ''how do I sort by size'' False 1000 1001 example_world)
     = Some 2"
proof -
  have a: "files (fsys example_world) example_path = None"
    by (simp add: example_world_def empty_fs_def)
  have b: "json_Unmarshal (example_lib (entry_of bad_response)) (''entry '' @ example_key)
     = Inr (entry_of bad_response)"
    by (simp add: example_lib_def)
  have c: "run (example_lib (entry_of bad_response)) example_invocation stub_provider
        ''ls'' page ''how do I sort by size'' False 1000 1001 example_world
     = Some (Inl (UnableToGenerate (Some (NotStartWithCommand ''ls''))),
         \<lparr>fsys = empty_fs\<lparr>files := [example_path \<mapsto> ''entry '' @ example_key]\<rparr>,
          backend = (),
          calls = [QueryCall (query_request example_invocation
                     (NewBuilder ''ls'' page ''how do I sort by size'' False)),
                   QueryCall (retry_request example_invocation
                     (NewBuilder ''ls'' page ''how do I sort by size'' False))]\<rparr>)"
    by (simp add: run_def Let_def queryWithCache_example parseAndValidate_example)
  show ?thesis
    unfolding c using a b by simp
qed

text \<open>
  The next query for the same fingerprint is then served the invalid response from the
  cache and ends at once, without a call to the provider.
\<close>

lemma cached_invalid_response_is_served:
  "map_option (\<lambda>r. (fst r, calls (snd r)))
     (run (example_lib (entry_of bad_response)) example_invocation stub_provider
        ''ls'' page ''how do I sort by size'' False 5000 5001
        (example_world\<lparr>fsys := empty_fs\<lparr>files := [example_path \<mapsto> ''entry '' @ example_key]\<rparr>\<rparr>))
   = Some (Inl (CachedResponseInvalid (Some (NotStartWithCommand ''ls''))), [])"
proof -
  have g: "fst (Get (example_lib (entry_of bad_response)) (cache_New ''/cache'' 30) 5000
             ''ls'' ''how do I sort by size'' ''llama3''
             (empty_fs\<lparr>files := [example_path \<mapsto> ''entry '' @ example_key]\<rparr>))
           = Some (bad_response\<lparr>Cached := True\<rparr>)"
    by (simp add: Get_def Let_def ReadFile_def example_path_Join cache_New_def
          empty_fs_def isExpired_def int64_def Hour_def)
       (simp add: example_lib_def entry_of_def isExpired_def int64_def Hour_def
          saveEntry_def example_path_Join)
  have p: "parseAndValidate L example_invocation stub_provider b
             (bad_response\<lparr>Cached := True\<rparr>) ''ls'' False q now w
           = (Inl (CachedResponseInvalid (Some (NotStartWithCommand ''ls''))), w)" for L b q now w
    by (simp add: parseAndValidate_def Let_def bad_response_fields Parse_bad_response invalid_def)
  show ?thesis
    using g
    by (auto simp: run_def queryWithCache_def Let_def example_invocation_def example_world_def
          p [unfolded example_invocation_def] split: prod.splits option.splits)
qed

end
